theory Spec2Isabelle
  imports Main "HOL-Library.Word" "HOL-Library.Char_ord" "HOL-Library.List_Lexorder"
    "HOL-Library.Monad_Syntax"
begin

unbundle bit_operations_syntax

section \<open>Peer permission checks of the AllJoyn core (PeerPermission.cc)\<close>

text \<open>
  The development follows \<^verbatim>\<open>src/posix/android/PeerPermission.cc\<close> and the status
  enumeration of \<^verbatim>\<open>alljoyn/Status.h\<close>. A \<^verbatim>\<open>qcc::String\<close> is a \<^typ>\<open>string\<close>;
  its \<^verbatim>\<open><\<close> is the lexicographic order on the bytes (\<^theory_text>\<open>List_Lexorder\<close> over
  \<^theory_text>\<open>Char_ord\<close>), its \<^verbatim>\<open>==\<close> is equality.
\<close>

subsection \<open>Call signatures: \<^verbatim>\<open>PermCheckedEntry\<close>\<close>

record PermCheckedEntry =
  sender :: string
  sourcePath :: string
  iface :: string
  signalName :: string

text \<open>\<^verbatim>\<open>PermCheckedEntry::operator<\<close>, disjunct by disjunct as the source writes it.\<close>

definition entry_less :: "PermCheckedEntry \<Rightarrow> PermCheckedEntry \<Rightarrow> bool" where
  "entry_less a other \<longleftrightarrow>
     (sender a < sender other)
     \<or> ((sender a = sender other) \<and> (sourcePath a < sourcePath other))
     \<or> ((sourcePath a = sourcePath other) \<and> (iface a < iface other))
     \<or> ((iface a = iface other) \<and> (signalName a < signalName other))"

text \<open>
  The order the data model describes: lexicographic over (sender, object path, interface,
  member). It is only compared with \<^const>\<open>entry_less\<close>; no operation uses it.
\<close>

definition entry_less_lexicographic_spec :: "PermCheckedEntry \<Rightarrow> PermCheckedEntry \<Rightarrow> bool" where
  "entry_less_lexicographic_spec a b \<longleftrightarrow>
     (sender a < sender b
      \<or> (sender a = sender b \<and> (sourcePath a < sourcePath b
      \<or> (sourcePath a = sourcePath b \<and> (iface a < iface b
      \<or> (iface a = iface b \<and> signalName a < signalName b))))))"

subsection \<open>Status codes: the \<^verbatim>\<open>QStatus\<close> enumeration of Status.h\<close>

text \<open>
  A C enumeration is a set of named integer constants. The table lists every enumerator of
  \<^verbatim>\<open>QStatus\<close> with its value, in the order of the header.
\<close>

type_synonym QStatus = nat

definition QStatus_enum :: "(string \<times> QStatus) list" where
  "QStatus_enum =
  [(''ER_OK'', 0x0),
   (''ER_FAIL'', 0x1),
   (''ER_UTF_CONVERSION_FAILED'', 0x2),
   (''ER_BUFFER_TOO_SMALL'', 0x3),
   (''ER_OS_ERROR'', 0x4),
   (''ER_OUT_OF_MEMORY'', 0x5),
   (''ER_SOCKET_BIND_ERROR'', 0x6),
   (''ER_INIT_FAILED'', 0x7),
   (''ER_WOULDBLOCK'', 0x8),
   (''ER_NOT_IMPLEMENTED'', 0x9),
   (''ER_TIMEOUT'', 0xa),
   (''ER_SOCK_OTHER_END_CLOSED'', 0xb),
   (''ER_BAD_ARG_1'', 0xc),
   (''ER_BAD_ARG_2'', 0xd),
   (''ER_BAD_ARG_3'', 0xe),
   (''ER_BAD_ARG_4'', 0xf),
   (''ER_BAD_ARG_5'', 0x10),
   (''ER_BAD_ARG_6'', 0x11),
   (''ER_BAD_ARG_7'', 0x12),
   (''ER_BAD_ARG_8'', 0x13),
   (''ER_INVALID_ADDRESS'', 0x14),
   (''ER_INVALID_DATA'', 0x15),
   (''ER_READ_ERROR'', 0x16),
   (''ER_WRITE_ERROR'', 0x17),
   (''ER_OPEN_FAILED'', 0x18),
   (''ER_PARSE_ERROR'', 0x19),
   (''ER_END_OF_DATA'', 0x1A),
   (''ER_CONN_REFUSED'', 0x1B),
   (''ER_BAD_ARG_COUNT'', 0x1C),
   (''ER_WARNING'', 0x1D),
   (''ER_COMMON_ERRORS'', 0x1000),
   (''ER_STOPPING_THREAD'', 0x1001),
   (''ER_ALERTED_THREAD'', 0x1002),
   (''ER_XML_MALFORMED'', 0x1003),
   (''ER_AUTH_FAIL'', 0x1004),
   (''ER_AUTH_USER_REJECT'', 0x1005),
   (''ER_NO_SUCH_ALARM'', 0x1006),
   (''ER_TIMER_FALLBEHIND'', 0x1007),
   (''ER_SSL_ERRORS'', 0x1008),
   (''ER_SSL_INIT'', 0x1009),
   (''ER_SSL_CONNECT'', 0x100a),
   (''ER_SSL_VERIFY'', 0x100b),
   (''ER_EXTERNAL_THREAD'', 0x100c),
   (''ER_CRYPTO_ERROR'', 0x100d),
   (''ER_CRYPTO_TRUNCATED'', 0x100e),
   (''ER_CRYPTO_KEY_UNAVAILABLE'', 0x100f),
   (''ER_BAD_HOSTNAME'', 0x1010),
   (''ER_CRYPTO_KEY_UNUSABLE'', 0x1011),
   (''ER_EMPTY_KEY_BLOB'', 0x1012),
   (''ER_CORRUPT_KEYBLOB'', 0x1013),
   (''ER_INVALID_KEY_ENCODING'', 0x1014),
   (''ER_DEAD_THREAD'', 0x1015),
   (''ER_THREAD_RUNNING'', 0x1016),
   (''ER_THREAD_STOPPING'', 0x1017),
   (''ER_BAD_STRING_ENCODING'', 0x1018),
   (''ER_CRYPTO_INSUFFICIENT_SECURITY'', 0x1019),
   (''ER_CRYPTO_ILLEGAL_PARAMETERS'', 0x101a),
   (''ER_CRYPTO_HASH_UNINITIALIZED'', 0x101b),
   (''ER_THREAD_NO_WAIT'', 0x101c),
   (''ER_TIMER_EXITING'', 0x101d),
   (''ER_INVALID_GUID'', 0x101e),
   (''ER_THREADPOOL_EXHAUSTED'', 0x101f),
   (''ER_THREADPOOL_STOPPING'', 0x1020),
   (''ER_INVALID_STREAM'', 0x1021),
   (''ER_TIMER_FULL'', 0x1022),
   (''ER_NONE'', 0xffff),
   (''ER_BUS_ERRORS'', 0x9000),
   (''ER_BUS_READ_ERROR'', 0x9001),
   (''ER_BUS_WRITE_ERROR'', 0x9002),
   (''ER_BUS_BAD_VALUE_TYPE'', 0x9003),
   (''ER_BUS_BAD_HEADER_FIELD'', 0x9004),
   (''ER_BUS_BAD_SIGNATURE'', 0x9005),
   (''ER_BUS_BAD_OBJ_PATH'', 0x9006),
   (''ER_BUS_BAD_MEMBER_NAME'', 0x9007),
   (''ER_BUS_BAD_INTERFACE_NAME'', 0x9008),
   (''ER_BUS_BAD_ERROR_NAME'', 0x9009),
   (''ER_BUS_BAD_BUS_NAME'', 0x900a),
   (''ER_BUS_NAME_TOO_LONG'', 0x900b),
   (''ER_BUS_BAD_LENGTH'', 0x900c),
   (''ER_BUS_BAD_VALUE'', 0x900d),
   (''ER_BUS_BAD_HDR_FLAGS'', 0x900e),
   (''ER_BUS_BAD_BODY_LEN'', 0x900f),
   (''ER_BUS_BAD_HEADER_LEN'', 0x9010),
   (''ER_BUS_UNKNOWN_SERIAL'', 0x9011),
   (''ER_BUS_UNKNOWN_PATH'', 0x9012),
   (''ER_BUS_UNKNOWN_INTERFACE'', 0x9013),
   (''ER_BUS_ESTABLISH_FAILED'', 0x9014),
   (''ER_BUS_UNEXPECTED_SIGNATURE'', 0x9015),
   (''ER_BUS_INTERFACE_MISSING'', 0x9016),
   (''ER_BUS_PATH_MISSING'', 0x9017),
   (''ER_BUS_MEMBER_MISSING'', 0x9018),
   (''ER_BUS_REPLY_SERIAL_MISSING'', 0x9019),
   (''ER_BUS_ERROR_NAME_MISSING'', 0x901a),
   (''ER_BUS_INTERFACE_NO_SUCH_MEMBER'', 0x901b),
   (''ER_BUS_NO_SUCH_OBJECT'', 0x901c),
   (''ER_BUS_OBJECT_NO_SUCH_MEMBER'', 0x901d),
   (''ER_BUS_OBJECT_NO_SUCH_INTERFACE'', 0x901e),
   (''ER_BUS_NO_SUCH_INTERFACE'', 0x901f),
   (''ER_BUS_MEMBER_NO_SUCH_SIGNATURE'', 0x9020),
   (''ER_BUS_NOT_NUL_TERMINATED'', 0x9021),
   (''ER_BUS_NO_SUCH_PROPERTY'', 0x9022),
   (''ER_BUS_SET_WRONG_SIGNATURE'', 0x9023),
   (''ER_BUS_PROPERTY_VALUE_NOT_SET'', 0x9024),
   (''ER_BUS_PROPERTY_ACCESS_DENIED'', 0x9025),
   (''ER_BUS_NO_TRANSPORTS'', 0x9026),
   (''ER_BUS_BAD_TRANSPORT_ARGS'', 0x9027),
   (''ER_BUS_NO_ROUTE'', 0x9028),
   (''ER_BUS_NO_ENDPOINT'', 0x9029),
   (''ER_BUS_BAD_SEND_PARAMETER'', 0x902a),
   (''ER_BUS_UNMATCHED_REPLY_SERIAL'', 0x902b),
   (''ER_BUS_BAD_SENDER_ID'', 0x902c),
   (''ER_BUS_TRANSPORT_NOT_STARTED'', 0x902d),
   (''ER_BUS_EMPTY_MESSAGE'', 0x902e),
   (''ER_BUS_NOT_OWNER'', 0x902f),
   (''ER_BUS_SET_PROPERTY_REJECTED'', 0x9030),
   (''ER_BUS_CONNECT_FAILED'', 0x9031),
   (''ER_BUS_REPLY_IS_ERROR_MESSAGE'', 0x9032),
   (''ER_BUS_NOT_AUTHENTICATING'', 0x9033),
   (''ER_BUS_NO_LISTENER'', 0x9034),
   (''ER_BUS_BT_TRANSPORT_ERROR'', 0x9035),
   (''ER_BUS_NOT_ALLOWED'', 0x9036),
   (''ER_BUS_WRITE_QUEUE_FULL'', 0x9037),
   (''ER_BUS_ENDPOINT_CLOSING'', 0x9038),
   (''ER_BUS_INTERFACE_MISMATCH'', 0x9039),
   (''ER_BUS_MEMBER_ALREADY_EXISTS'', 0x903a),
   (''ER_BUS_PROPERTY_ALREADY_EXISTS'', 0x903b),
   (''ER_BUS_IFACE_ALREADY_EXISTS'', 0x903c),
   (''ER_BUS_ERROR_RESPONSE'', 0x903d),
   (''ER_BUS_BAD_XML'', 0x903e),
   (''ER_BUS_BAD_CHILD_PATH'', 0x903f),
   (''ER_BUS_OBJ_ALREADY_EXISTS'', 0x9040),
   (''ER_BUS_OBJ_NOT_FOUND'', 0x9041),
   (''ER_BUS_CANNOT_EXPAND_MESSAGE'', 0x9042),
   (''ER_BUS_NOT_COMPRESSED'', 0x9043),
   (''ER_BUS_ALREADY_CONNECTED'', 0x9044),
   (''ER_BUS_NOT_CONNECTED'', 0x9045),
   (''ER_BUS_ALREADY_LISTENING'', 0x9046),
   (''ER_BUS_KEY_UNAVAILABLE'', 0x9047),
   (''ER_BUS_TRUNCATED'', 0x9048),
   (''ER_BUS_KEY_STORE_NOT_LOADED'', 0x9049),
   (''ER_BUS_NO_AUTHENTICATION_MECHANISM'', 0x904a),
   (''ER_BUS_BUS_ALREADY_STARTED'', 0x904b),
   (''ER_BUS_BUS_NOT_STARTED'', 0x904c),
   (''ER_BUS_KEYBLOB_OP_INVALID'', 0x904d),
   (''ER_BUS_INVALID_HEADER_CHECKSUM'', 0x904e),
   (''ER_BUS_MESSAGE_NOT_ENCRYPTED'', 0x904f),
   (''ER_BUS_INVALID_HEADER_SERIAL'', 0x9050),
   (''ER_BUS_TIME_TO_LIVE_EXPIRED'', 0x9051),
   (''ER_BUS_HDR_EXPANSION_INVALID'', 0x9052),
   (''ER_BUS_MISSING_COMPRESSION_TOKEN'', 0x9053),
   (''ER_BUS_NO_PEER_GUID'', 0x9054),
   (''ER_BUS_MESSAGE_DECRYPTION_FAILED'', 0x9055),
   (''ER_BUS_SECURITY_FATAL'', 0x9056),
   (''ER_BUS_KEY_EXPIRED'', 0x9057),
   (''ER_BUS_CORRUPT_KEYSTORE'', 0x9058),
   (''ER_BUS_NO_CALL_FOR_REPLY'', 0x9059),
   (''ER_BUS_NOT_A_COMPLETE_TYPE'', 0x905a),
   (''ER_BUS_POLICY_VIOLATION'', 0x905b),
   (''ER_BUS_NO_SUCH_SERVICE'', 0x905c),
   (''ER_BUS_TRANSPORT_NOT_AVAILABLE'', 0x905d),
   (''ER_BUS_INVALID_AUTH_MECHANISM'', 0x905e),
   (''ER_BUS_KEYSTORE_VERSION_MISMATCH'', 0x905f),
   (''ER_BUS_BLOCKING_CALL_NOT_ALLOWED'', 0x9060),
   (''ER_BUS_SIGNATURE_MISMATCH'', 0x9061),
   (''ER_BUS_STOPPING'', 0x9062),
   (''ER_BUS_METHOD_CALL_ABORTED'', 0x9063),
   (''ER_BUS_CANNOT_ADD_INTERFACE'', 0x9064),
   (''ER_BUS_CANNOT_ADD_HANDLER'', 0x9065),
   (''ER_BUS_KEYSTORE_NOT_LOADED'', 0x9066),
   (''ER_BUS_NO_SUCH_HANDLE'', 0x906b),
   (''ER_BUS_HANDLES_NOT_ENABLED'', 0x906c),
   (''ER_BUS_HANDLES_MISMATCH'', 0x906d),
   (''ER_BT_MAX_CONNECTIONS_USED'', 0x906e),
   (''ER_BUS_NO_SESSION'', 0x906f),
   (''ER_BUS_ELEMENT_NOT_FOUND'', 0x9070),
   (''ER_BUS_NOT_A_DICTIONARY'', 0x9071),
   (''ER_BUS_WAIT_FAILED'', 0x9072),
   (''ER_BUS_BAD_SESSION_OPTS'', 0x9074),
   (''ER_BUS_CONNECTION_REJECTED'', 0x9075),
   (''ER_DBUS_REQUEST_NAME_REPLY_PRIMARY_OWNER'', 0x9076),
   (''ER_DBUS_REQUEST_NAME_REPLY_IN_QUEUE'', 0x9077),
   (''ER_DBUS_REQUEST_NAME_REPLY_EXISTS'', 0x9078),
   (''ER_DBUS_REQUEST_NAME_REPLY_ALREADY_OWNER'', 0x9079),
   (''ER_DBUS_RELEASE_NAME_REPLY_RELEASED'', 0x907a),
   (''ER_DBUS_RELEASE_NAME_REPLY_NON_EXISTENT'', 0x907b),
   (''ER_DBUS_RELEASE_NAME_REPLY_NOT_OWNER'', 0x907c),
   (''ER_DBUS_START_REPLY_ALREADY_RUNNING'', 0x907e),
   (''ER_ALLJOYN_BINDSESSIONPORT_REPLY_ALREADY_EXISTS'', 0x9080),
   (''ER_ALLJOYN_BINDSESSIONPORT_REPLY_FAILED'', 0x9081),
   (''ER_ALLJOYN_JOINSESSION_REPLY_NO_SESSION'', 0x9083),
   (''ER_ALLJOYN_JOINSESSION_REPLY_UNREACHABLE'', 0x9084),
   (''ER_ALLJOYN_JOINSESSION_REPLY_CONNECT_FAILED'', 0x9085),
   (''ER_ALLJOYN_JOINSESSION_REPLY_REJECTED'', 0x9086),
   (''ER_ALLJOYN_JOINSESSION_REPLY_BAD_SESSION_OPTS'', 0x9087),
   (''ER_ALLJOYN_JOINSESSION_REPLY_FAILED'', 0x9088),
   (''ER_ALLJOYN_LEAVESESSION_REPLY_NO_SESSION'', 0x908a),
   (''ER_ALLJOYN_LEAVESESSION_REPLY_FAILED'', 0x908b),
   (''ER_ALLJOYN_ADVERTISENAME_REPLY_ALREADY_ADVERTISING'', 0x908d),
   (''ER_ALLJOYN_ADVERTISENAME_REPLY_FAILED'', 0x908e),
   (''ER_ALLJOYN_CANCELADVERTISENAME_REPLY_FAILED'', 0x9090),
   (''ER_ALLJOYN_FINDADVERTISEDNAME_REPLY_ALREADY_DISCOVERING'', 0x9092),
   (''ER_ALLJOYN_FINDADVERTISEDNAME_REPLY_FAILED'', 0x9093),
   (''ER_ALLJOYN_CANCELFINDADVERTISEDNAME_REPLY_FAILED'', 0x9095),
   (''ER_BUS_UNEXPECTED_DISPOSITION'', 0x9096),
   (''ER_BUS_INTERFACE_ACTIVATED'', 0x9097),
   (''ER_ALLJOYN_UNBINDSESSIONPORT_REPLY_BAD_PORT'', 0x9098),
   (''ER_ALLJOYN_UNBINDSESSIONPORT_REPLY_FAILED'', 0x9099),
   (''ER_ALLJOYN_BINDSESSIONPORT_REPLY_INVALID_OPTS'', 0x909a),
   (''ER_ALLJOYN_JOINSESSION_REPLY_ALREADY_JOINED'', 0x909b),
   (''ER_BUS_SELF_CONNECT'', 0x909c),
   (''ER_BUS_SECURITY_NOT_ENABLED'', 0x909d),
   (''ER_BUS_LISTENER_ALREADY_SET'', 0x909e),
   (''ER_BUS_PEER_AUTH_VERSION_MISMATCH'', 0x909f),
   (''ER_ALLJOYN_SETLINKTIMEOUT_REPLY_NOT_SUPPORTED'', 0x90a0),
   (''ER_ALLJOYN_SETLINKTIMEOUT_REPLY_NO_DEST_SUPPORT'', 0x90a1),
   (''ER_ALLJOYN_SETLINKTIMEOUT_REPLY_FAILED'', 0x90a2),
   (''ER_ALLJOYN_ACCESS_PERMISSION_WARNING'', 0x90a3),
   (''ER_ALLJOYN_ACCESS_PERMISSION_ERROR'', 0x90a4),
   (''ER_BUS_DESTINATION_NOT_AUTHENTICATED'', 0x90a5),
   (''ER_BUS_ENDPOINT_REDIRECTED'', 0x90a6),
   (''ER_BUS_AUTHENTICATION_PENDING'', 0x90a7),
   (''ER_BUS_NOT_AUTHORIZED'', 0x90a8),
   (''ER_PACKET_BUS_NO_SUCH_CHANNEL'', 0x90a9),
   (''ER_PACKET_BAD_FORMAT'', 0x90aa),
   (''ER_PACKET_CONNECT_TIMEOUT'', 0x90ab),
   (''ER_PACKET_CHANNEL_FAIL'', 0x90ac),
   (''ER_PACKET_TOO_LARGE'', 0x90ad),
   (''ER_PACKET_BAD_PARAMETER'', 0x90ae),
   (''ER_PACKET_BAD_CRC'', 0x90af),
   (''ER_STUN_ATTR_SIZE_MISMATCH'', 0x90b0),
   (''ER_STUN_AUTH_CHALLENGE'', 0x90b1),
   (''ER_STUN_SOCKET_NOT_OPEN'', 0x90b2),
   (''ER_STUN_SOCKET_OPEN'', 0x90b3),
   (''ER_STUN_FAILED_TO_SEND_MSG'', 0x90b4),
   (''ER_STUN_FRAMING_ERROR'', 0x90b5),
   (''ER_STUN_INVALID_ERROR_CODE'', 0x90b6),
   (''ER_STUN_INVALID_FINGERPRINT'', 0x90b7),
   (''ER_STUN_INVALID_ADDR_FAMILY'', 0x90b8),
   (''ER_STUN_INVALID_MESSAGE_INTEGRITY'', 0x90b9),
   (''ER_STUN_INVALID_MSG_TYPE'', 0x90ba),
   (''ER_STUN_INVALID_ATTR_TYPE'', 0x90bb),
   (''ER_STUN_RESPONSE_WITH_USERNAME'', 0x90bc),
   (''ER_STUN_ERR400_BAD_REQUEST'', 0x90bd),
   (''ER_STUN_BAD_INDICATION'', 0x90be),
   (''ER_STUN_ERR401_UNAUTHORIZED_REQUEST'', 0x90bf),
   (''ER_STUN_TOO_MANY_ATTRIBUTES'', 0x90c0),
   (''ER_STUN_DUPLICATE_ATTRIBUTE'', 0x90c1),
   (''ER_STUN_UNAUTHORIZED_INDICATION'', 0x90c2),
   (''ER_ICE_ALLOCATING_MEMORY'', 0x90c3),
   (''ER_ICE_CHECKS_INCOMPLETE'', 0x90c4),
   (''ER_ICE_ALLOCATE_REJECTED_NO_RESOURCES'', 0x90c5),
   (''ER_ICE_ALLOCATION_QUOTA_REACHED'', 0x90c6),
   (''ER_ICE_ALLOCATION_MISMATCH'', 0x90c7),
   (''ER_ICE_STUN_ERROR'', 0x90c8),
   (''ER_ICE_INVALID_STATE'', 0x90c9),
   (''ER_ICE_UNKNOWN_COMPONENT_ID'', 0x90ca),
   (''ER_RENDEZVOUS_SERVER_DEACTIVATED_USER'', 0x90cb),
   (''ER_RENDEZVOUS_SERVER_UNKNOWN_USER'', 0x90cc),
   (''ER_UNABLE_TO_CONNECT_TO_RENDEZVOUS_SERVER'', 0x90cd),
   (''ER_NOT_CONNECTED_TO_RENDEZVOUS_SERVER'', 0x90ce),
   (''ER_UNABLE_TO_SEND_MESSAGE_TO_RENDEZVOUS_SERVER'', 0x90cf),
   (''ER_INVALID_RENDEZVOUS_SERVER_INTERFACE_MESSAGE'', 0x90d0),
   (''ER_INVALID_PERSISTENT_CONNECTION_MESSAGE_RESPONSE'', 0x90d1),
   (''ER_INVALID_ON_DEMAND_CONNECTION_MESSAGE_RESPONSE'', 0x90d2),
   (''ER_INVALID_HTTP_METHOD_USED_FOR_RENDEZVOUS_SERVER_INTERFACE_MESSAGE'', 0x90d3),
   (''ER_RENDEZVOUS_SERVER_ERR500_INTERNAL_ERROR'', 0x90d4),
   (''ER_RENDEZVOUS_SERVER_ERR503_STATUS_UNAVAILABLE'', 0x90d5),
   (''ER_RENDEZVOUS_SERVER_ERR401_UNAUTHORIZED_REQUEST'', 0x90d6),
   (''ER_RENDEZVOUS_SERVER_UNRECOVERABLE_ERROR'', 0x90d7),
   (''ER_RENDEZVOUS_SERVER_ROOT_CERTIFICATE_UNINITIALIZED'', 0x90d8),
   (''ER_BUS_NO_SUCH_ANNOTATION'', 0x90d9),
   (''ER_BUS_ANNOTATION_ALREADY_EXISTS'', 0x90da),
   (''ER_SOCK_CLOSING'', 0x90db),
   (''ER_NO_SUCH_DEVICE'', 0x90dc),
   (''ER_P2P'', 0x90dd),
   (''ER_P2P_TIMEOUT'', 0x90de),
   (''ER_P2P_NOT_CONNECTED'', 0x90df),
   (''ER_BAD_TRANSPORT_MASK'', 0x90e0),
   (''ER_PROXIMITY_CONNECTION_ESTABLISH_FAIL'', 0x90e1),
   (''ER_PROXIMITY_NO_PEERS_FOUND'', 0x90e2),
   (''ER_BUS_OBJECT_NOT_REGISTERED'', 0x90e3),
   (''ER_P2P_DISABLED'', 0x90e4),
   (''ER_P2P_BUSY'', 0x90e5),
   (''ER_BUS_INCOMPATIBLE_DAEMON'', 0x90e6),
   (''ER_P2P_NO_GO'', 0x90e7),
   (''ER_P2P_NO_STA'', 0x90e8),
   (''ER_P2P_FORBIDDEN'', 0x90e9),
   (''ER_ALLJOYN_ONAPPSUSPEND_REPLY_FAILED'', 0x90ea),
   (''ER_ALLJOYN_ONAPPSUSPEND_REPLY_UNSUPPORTED'', 0x90eb),
   (''ER_ALLJOYN_ONAPPRESUME_REPLY_FAILED'', 0x90ec),
   (''ER_ALLJOYN_ONAPPRESUME_REPLY_UNSUPPORTED'', 0x90ed),
   (''ER_BUS_NO_SUCH_MESSAGE'', 0x90ee)]"

text \<open>The enumerators the permission code names.\<close>

definition ER_OK :: QStatus where "ER_OK = 0x0"
definition ER_FAIL :: QStatus where "ER_FAIL = 0x1"
definition ER_THREADPOOL_EXHAUSTED :: QStatus where "ER_THREADPOOL_EXHAUSTED = 0x101f"
definition ER_THREADPOOL_STOPPING :: QStatus where "ER_THREADPOOL_STOPPING = 0x1020"
definition ER_ALLJOYN_ACCESS_PERMISSION_ERROR :: QStatus where
  "ER_ALLJOYN_ACCESS_PERMISSION_ERROR = 0x90a4"

text \<open>
  The blocks of the enumeration. The generic codes are the enumerators declared before the
  marker \<^verbatim>\<open>ER_COMMON_ERRORS\<close>; the bus block is the marker \<^verbatim>\<open>ER_BUS_ERRORS\<close> and
  everything declared after it.
\<close>

definition generic_block :: "(string \<times> QStatus) list" where
  "generic_block = takeWhile (\<lambda>e. fst e \<noteq> ''ER_COMMON_ERRORS'') QStatus_enum"

definition after_generic_block :: "(string \<times> QStatus) list" where
  "after_generic_block = dropWhile (\<lambda>e. fst e \<noteq> ''ER_COMMON_ERRORS'') QStatus_enum"

definition bus_block :: "(string \<times> QStatus) list" where
  "bus_block = dropWhile (\<lambda>e. fst e \<noteq> ''ER_BUS_ERRORS'') QStatus_enum"

text \<open>The success test every caller writes: \<^verbatim>\<open>status == ER_OK\<close>.\<close>

definition is_success :: "QStatus \<Rightarrow> bool" where
  "is_success status \<longleftrightarrow> status = ER_OK"

subsection \<open>The permission cache: \<^verbatim>\<open>std::map<PermCheckedEntry, bool> permCheckedCallMap\<close>\<close>

text \<open>
  \<^verbatim>\<open>std::map\<close> is not part of the sources. The model follows the red-black tree of the
  GNU C++ library (\<^verbatim>\<open>stl_map.h\<close>, \<^verbatim>\<open>stl_tree.h\<close>, \<^verbatim>\<open>tree.cc\<close>) pointer by pointer,
  because the tree is walked with \<^const>\<open>entry_less\<close> and that comparison is not a
  strict weak order: what the container then does is decided by the pointers, not by a
  contract. A pointer is null, the address of the header or the address of a node; the
  nodes live in a list and a new node gets the next index. Every operation returns
  \<^const>\<open>None\<close> where the C++ code would follow a null pointer, read the key of the
  header (which has none), touch a node it has freed, or loop for ever.
\<close>

datatype Rb_tree_color = S_red | S_black

datatype ptr = Null | Header | Addr nat

record Rb_tree_node =
  M_color :: Rb_tree_color
  M_parent :: ptr
  M_left :: ptr
  M_right :: ptr
  M_key :: PermCheckedEntry
  M_value :: bool

text \<open>
  The header holds the root in its parent field, the leftmost node in its left field and
  the rightmost node in its right field; \<^verbatim>\<open>end()\<close> is the header, \<^verbatim>\<open>begin()\<close> is
  its left field.
\<close>

record Rb_tree =
  header_color :: Rb_tree_color
  header_parent :: ptr
  header_left :: ptr
  header_right :: ptr
  M_node_count :: nat
  nodes :: "Rb_tree_node list"

definition Rb_tree_empty :: Rb_tree where
  "Rb_tree_empty =
     \<lparr>header_color = S_red, header_parent = Null, header_left = Header, header_right = Header,
      M_node_count = 0, nodes = []\<rparr>"

definition node_at :: "Rb_tree \<Rightarrow> nat \<Rightarrow> Rb_tree_node option" where
  "node_at t i = (if i < length (nodes t) then Some (nodes t ! i) else None)"

definition color_of :: "Rb_tree \<Rightarrow> ptr \<Rightarrow> Rb_tree_color option" where
  "color_of t p =
     (case p of Null \<Rightarrow> None | Header \<Rightarrow> Some (header_color t)
      | Addr i \<Rightarrow> map_option M_color (node_at t i))"

definition parent_of :: "Rb_tree \<Rightarrow> ptr \<Rightarrow> ptr option" where
  "parent_of t p =
     (case p of Null \<Rightarrow> None | Header \<Rightarrow> Some (header_parent t)
      | Addr i \<Rightarrow> map_option M_parent (node_at t i))"

definition left_of :: "Rb_tree \<Rightarrow> ptr \<Rightarrow> ptr option" where
  "left_of t p =
     (case p of Null \<Rightarrow> None | Header \<Rightarrow> Some (header_left t)
      | Addr i \<Rightarrow> map_option M_left (node_at t i))"

definition right_of :: "Rb_tree \<Rightarrow> ptr \<Rightarrow> ptr option" where
  "right_of t p =
     (case p of Null \<Rightarrow> None | Header \<Rightarrow> Some (header_right t)
      | Addr i \<Rightarrow> map_option M_right (node_at t i))"

definition key_of :: "Rb_tree \<Rightarrow> ptr \<Rightarrow> PermCheckedEntry option" where
  "key_of t p = (case p of Addr i \<Rightarrow> map_option M_key (node_at t i) | _ \<Rightarrow> None)"

definition value_of :: "Rb_tree \<Rightarrow> ptr \<Rightarrow> bool option" where
  "value_of t p = (case p of Addr i \<Rightarrow> map_option M_value (node_at t i) | _ \<Rightarrow> None)"

definition set_color :: "Rb_tree \<Rightarrow> ptr \<Rightarrow> Rb_tree_color \<Rightarrow> Rb_tree option" where
  "set_color t p c =
     (case p of Null \<Rightarrow> None | Header \<Rightarrow> Some (t\<lparr>header_color := c\<rparr>)
      | Addr i \<Rightarrow> map_option (\<lambda>n. t\<lparr>nodes := (nodes t)[i := n\<lparr>M_color := c\<rparr>]\<rparr>) (node_at t i))"

definition set_parent :: "Rb_tree \<Rightarrow> ptr \<Rightarrow> ptr \<Rightarrow> Rb_tree option" where
  "set_parent t p q =
     (case p of Null \<Rightarrow> None | Header \<Rightarrow> Some (t\<lparr>header_parent := q\<rparr>)
      | Addr i \<Rightarrow> map_option (\<lambda>n. t\<lparr>nodes := (nodes t)[i := n\<lparr>M_parent := q\<rparr>]\<rparr>) (node_at t i))"

definition set_left :: "Rb_tree \<Rightarrow> ptr \<Rightarrow> ptr \<Rightarrow> Rb_tree option" where
  "set_left t p q =
     (case p of Null \<Rightarrow> None | Header \<Rightarrow> Some (t\<lparr>header_left := q\<rparr>)
      | Addr i \<Rightarrow> map_option (\<lambda>n. t\<lparr>nodes := (nodes t)[i := n\<lparr>M_left := q\<rparr>]\<rparr>) (node_at t i))"

definition set_right :: "Rb_tree \<Rightarrow> ptr \<Rightarrow> ptr \<Rightarrow> Rb_tree option" where
  "set_right t p q =
     (case p of Null \<Rightarrow> None | Header \<Rightarrow> Some (t\<lparr>header_right := q\<rparr>)
      | Addr i \<Rightarrow> map_option (\<lambda>n. t\<lparr>nodes := (nodes t)[i := n\<lparr>M_right := q\<rparr>]\<rparr>) (node_at t i))"

definition set_value :: "Rb_tree \<Rightarrow> ptr \<Rightarrow> bool \<Rightarrow> Rb_tree option" where
  "set_value t p v =
     (case p of Addr i \<Rightarrow> map_option (\<lambda>n. t\<lparr>nodes := (nodes t)[i := n\<lparr>M_value := v\<rparr>]\<rparr>) (node_at t i)
      | _ \<Rightarrow> None)"

text \<open>
  A loop that follows pointers gets as many turns as there are nodes, and one more: a
  walk that needs more has come back to a node it left, and the C++ loop does not end.
\<close>

definition fuel :: "Rb_tree \<Rightarrow> nat" where
  "fuel t = Suc (length (nodes t))"

text \<open>
  \<^verbatim>\<open>_M_lower_bound(x, y, k)\<close>: while \<open>x\<close> is not null, if the key of \<open>x\<close> is not less
  than \<open>k\<close> then \<open>y = x\<close> and \<open>x\<close> goes left, else \<open>x\<close> goes right.
\<close>

fun M_lower_bound :: "nat \<Rightarrow> Rb_tree \<Rightarrow> ptr \<Rightarrow> ptr \<Rightarrow> PermCheckedEntry \<Rightarrow> ptr option" where
  "M_lower_bound 0 t x y k = None"
| "M_lower_bound (Suc n) t x y k =
     (if x = Null then Some y
      else do {
        kx \<leftarrow> key_of t x;
        if \<not> entry_less kx k
        then do { l \<leftarrow> left_of t x; M_lower_bound n t l x k }
        else do { r \<leftarrow> right_of t x; M_lower_bound n t r y k }
      })"

definition lower_bound :: "Rb_tree \<Rightarrow> PermCheckedEntry \<Rightarrow> ptr option" where
  "lower_bound t k = M_lower_bound (fuel t) t (header_parent t) Header k"

text \<open>
  \<^verbatim>\<open>find(k)\<close>: \<open>j = lower_bound(k)\<close>, and \<^verbatim>\<open>end()\<close> when \<open>j\<close> is \<^verbatim>\<open>end()\<close> or \<open>k\<close> is
  less than the key of \<open>j\<close>.
\<close>

definition map_find :: "Rb_tree \<Rightarrow> PermCheckedEntry \<Rightarrow> ptr option" where
  "map_find t k = do {
     j \<leftarrow> lower_bound t k;
     if j = Header then Some Header
     else do { kj \<leftarrow> key_of t j; Some (if entry_less k kj then Header else j) }
   }"

definition map_size :: "Rb_tree \<Rightarrow> nat" where
  "map_size t = M_node_count t"

text \<open>
  \<^verbatim>\<open>_M_erase(x)\<close> frees the nodes below \<open>x\<close> without rebalancing: it erases the right
  subtree, frees \<open>x\<close> and goes on with the left child. \<open>freed\<close> are the nodes freed so
  far. \<^verbatim>\<open>clear()\<close> erases from the root and resets the header and the count.
\<close>

fun M_erase :: "nat \<Rightarrow> Rb_tree \<Rightarrow> ptr \<Rightarrow> nat list \<Rightarrow> nat list option" where
  "M_erase 0 t x freed = None"
| "M_erase (Suc n) t x freed =
     (case x of
        Null \<Rightarrow> Some freed
      | Header \<Rightarrow> None
      | Addr i \<Rightarrow>
          if i \<in> set freed then None
          else do {
            r \<leftarrow> right_of t x;
            freed' \<leftarrow> M_erase n t r freed;
            if i \<in> set freed' then None
            else do { l \<leftarrow> left_of t x; M_erase n t l (i # freed') }
          })"

definition map_clear :: "Rb_tree \<Rightarrow> Rb_tree option" where
  "map_clear t = do {
     freed \<leftarrow> M_erase (fuel t) t (header_parent t) [];
     Some (t\<lparr>header_parent := Null, header_left := Header, header_right := Header,
             M_node_count := 0, nodes := []\<rparr>)
   }"

text \<open>\<^verbatim>\<open>local_Rb_tree_rotate_left(x, root)\<close> and its mirror image; the root is the header's parent field.\<close>

definition Rb_tree_rotate_left :: "Rb_tree \<Rightarrow> ptr \<Rightarrow> Rb_tree option" where
  "Rb_tree_rotate_left t x = do {
     y \<leftarrow> right_of t x;
     yl \<leftarrow> left_of t y;
     t \<leftarrow> set_right t x yl;
     t \<leftarrow> (if yl \<noteq> Null then set_parent t yl x else Some t);
     xp \<leftarrow> parent_of t x;
     t \<leftarrow> set_parent t y xp;
     t \<leftarrow> (if x = header_parent t then Some (t\<lparr>header_parent := y\<rparr>)
          else do { xpl \<leftarrow> left_of t xp; if x = xpl then set_left t xp y else set_right t xp y });
     t \<leftarrow> set_left t y x;
     set_parent t x y
   }"

definition Rb_tree_rotate_right :: "Rb_tree \<Rightarrow> ptr \<Rightarrow> Rb_tree option" where
  "Rb_tree_rotate_right t x = do {
     y \<leftarrow> left_of t x;
     yr \<leftarrow> right_of t y;
     t \<leftarrow> set_left t x yr;
     t \<leftarrow> (if yr \<noteq> Null then set_parent t yr x else Some t);
     xp \<leftarrow> parent_of t x;
     t \<leftarrow> set_parent t y xp;
     t \<leftarrow> (if x = header_parent t then Some (t\<lparr>header_parent := y\<rparr>)
          else do { xpr \<leftarrow> right_of t xp; if x = xpr then set_right t xp y else set_left t xp y });
     t \<leftarrow> set_right t y x;
     set_parent t x y
   }"

text \<open>
  The rebalancing loop of \<^verbatim>\<open>_Rb_tree_insert_and_rebalance\<close>: while \<open>x\<close> is not the root
  and its parent is red. \<open>xpp\<close> is read once at the start of a turn.
\<close>

fun rebalance :: "nat \<Rightarrow> Rb_tree \<Rightarrow> ptr \<Rightarrow> Rb_tree option" where
  "rebalance 0 t x = None"
| "rebalance (Suc n) t x =
     (if x = header_parent t then Some t
      else do {
        xp \<leftarrow> parent_of t x;
        cp \<leftarrow> color_of t xp;
        if cp \<noteq> S_red then Some t
        else do {
          xpp \<leftarrow> parent_of t xp;
          xppl \<leftarrow> left_of t xpp;
          if xp = xppl then do {
            y \<leftarrow> right_of t xpp;
            y_red \<leftarrow> (if y = Null then Some False else map_option (\<lambda>c. c = S_red) (color_of t y));
            if y_red then do {
              t \<leftarrow> set_color t xp S_black;
              t \<leftarrow> set_color t y S_black;
              t \<leftarrow> set_color t xpp S_red;
              rebalance n t xpp
            } else do {
              xpr \<leftarrow> right_of t xp;
              (x, t) \<leftarrow> (if x = xpr then map_option (Pair xp) (Rb_tree_rotate_left t xp)
                        else Some (x, t));
              xp' \<leftarrow> parent_of t x;
              t \<leftarrow> set_color t xp' S_black;
              t \<leftarrow> set_color t xpp S_red;
              t \<leftarrow> Rb_tree_rotate_right t xpp;
              rebalance n t x
            }
          } else do {
            y \<leftarrow> left_of t xpp;
            y_red \<leftarrow> (if y = Null then Some False else map_option (\<lambda>c. c = S_red) (color_of t y));
            if y_red then do {
              t \<leftarrow> set_color t xp S_black;
              t \<leftarrow> set_color t y S_black;
              t \<leftarrow> set_color t xpp S_red;
              rebalance n t xpp
            } else do {
              xpl \<leftarrow> left_of t xp;
              (x, t) \<leftarrow> (if x = xpl then map_option (Pair xp) (Rb_tree_rotate_right t xp)
                        else Some (x, t));
              xp' \<leftarrow> parent_of t x;
              t \<leftarrow> set_color t xp' S_black;
              t \<leftarrow> set_color t xpp S_red;
              t \<leftarrow> Rb_tree_rotate_left t xpp;
              rebalance n t x
            }
          }
        }
      })"

text \<open>
  \<^verbatim>\<open>_Rb_tree_insert_and_rebalance(insert_left, x, p, header)\<close> for a node \<open>x\<close> that is
  red, has the parent \<open>p\<close> and no children: it is linked as the left or the right child
  of \<open>p\<close>, whatever \<open>p\<close> had there, the leftmost and rightmost fields are kept up, the
  tree is rebalanced and the root is painted black.
\<close>

definition Rb_tree_insert_and_rebalance :: "bool \<Rightarrow> ptr \<Rightarrow> ptr \<Rightarrow> Rb_tree \<Rightarrow> Rb_tree option" where
  "Rb_tree_insert_and_rebalance insert_left x p t = do {
     t \<leftarrow> (if insert_left then do {
             t \<leftarrow> set_left t p x;
             if p = Header then Some (t\<lparr>header_parent := x, header_right := x\<rparr>)
             else if p = header_left t then Some (t\<lparr>header_left := x\<rparr>)
             else Some t
           } else do {
             t \<leftarrow> set_right t p x;
             if p = header_right t then Some (t\<lparr>header_right := x\<rparr>) else Some t
           });
     t \<leftarrow> rebalance (fuel t) t x;
     set_color t (header_parent t) S_black
   }"

text \<open>
  \<^verbatim>\<open>_M_insert_(x, p, v)\<close>: the new node goes to the left of \<open>p\<close> when \<open>x\<close> is not null,
  or \<open>p\<close> is the header, or the new key is less than the key of \<open>p\<close>.
\<close>

definition M_insert ::
  "Rb_tree \<Rightarrow> ptr \<Rightarrow> ptr \<Rightarrow> PermCheckedEntry \<Rightarrow> bool \<Rightarrow> (ptr \<times> Rb_tree) option" where
  "M_insert t x p k v = do {
     insert_left \<leftarrow> (if x \<noteq> Null \<or> p = Header then Some True
                     else map_option (entry_less k) (key_of t p));
     let z = Addr (length (nodes t));
     let t = t\<lparr>nodes := nodes t @
                [\<lparr>M_color = S_red, M_parent = p, M_left = Null, M_right = Null,
                  M_key = k, M_value = v\<rparr>]\<rparr>;
     t \<leftarrow> Rb_tree_insert_and_rebalance insert_left z p t;
     Some (z, t\<lparr>M_node_count := Suc (M_node_count t)\<rparr>)
   }"

text \<open>\<^verbatim>\<open>_Rb_tree_decrement(x)\<close>, the step of \<^verbatim>\<open>--it\<close>.\<close>

fun descend_right :: "nat \<Rightarrow> Rb_tree \<Rightarrow> ptr \<Rightarrow> ptr option" where
  "descend_right 0 t y = None"
| "descend_right (Suc n) t y = do {
     r \<leftarrow> right_of t y;
     if r \<noteq> Null then descend_right n t r else Some y
   }"

fun climb_from_left :: "nat \<Rightarrow> Rb_tree \<Rightarrow> ptr \<Rightarrow> ptr \<Rightarrow> ptr option" where
  "climb_from_left 0 t x y = None"
| "climb_from_left (Suc n) t x y = do {
     yl \<leftarrow> left_of t y;
     if x = yl then do { yp \<leftarrow> parent_of t y; climb_from_left n t y yp } else Some y
   }"

definition Rb_tree_decrement :: "Rb_tree \<Rightarrow> ptr \<Rightarrow> ptr option" where
  "Rb_tree_decrement t x = do {
     c \<leftarrow> color_of t x;
     at_header \<leftarrow> (if c = S_red
                   then do { xp \<leftarrow> parent_of t x; xpp \<leftarrow> parent_of t xp; Some (xpp = x) }
                   else Some False);
     if at_header then right_of t x
     else do {
       l \<leftarrow> left_of t x;
       if l \<noteq> Null then descend_right (fuel t) t l
       else do { y \<leftarrow> parent_of t x; climb_from_left (Suc (fuel t)) t x y }
     }
   }"

text \<open>
  \<^verbatim>\<open>_M_insert_unique(v)\<close>: the walk from the root goes left when the new key is less
  than the key of the node and right otherwise; \<open>y\<close> is the last node and \<open>cmp\<close> the
  last comparison. The node is inserted below \<open>y\<close> when \<open>cmp\<close> holds and \<open>y\<close> is
  \<^verbatim>\<open>begin()\<close>, or when the key of \<open>j\<close> (\<open>y\<close>, or the node before it when \<open>cmp\<close> holds)
  is less than the new key; otherwise \<open>j\<close> is returned and nothing is inserted.
\<close>

fun insert_walk ::
  "nat \<Rightarrow> Rb_tree \<Rightarrow> ptr \<Rightarrow> ptr \<Rightarrow> bool \<Rightarrow> PermCheckedEntry \<Rightarrow> (ptr \<times> ptr \<times> bool) option" where
  "insert_walk 0 t x y cmp k = None"
| "insert_walk (Suc n) t x y cmp k =
     (if x = Null then Some (x, y, cmp)
      else do {
        kx \<leftarrow> key_of t x;
        x' \<leftarrow> (if entry_less k kx then left_of t x else right_of t x);
        insert_walk n t x' x (entry_less k kx) k
      })"

definition M_insert_unique ::
  "Rb_tree \<Rightarrow> PermCheckedEntry \<Rightarrow> bool \<Rightarrow> (ptr \<times> Rb_tree) option" where
  "M_insert_unique t k v = do {
     (x, y, cmp) \<leftarrow> insert_walk (fuel t) t (header_parent t) Header True k;
     if cmp \<and> y = header_left t then M_insert t x y k v
     else do {
       j \<leftarrow> (if cmp then Rb_tree_decrement t y else Some y);
       kj \<leftarrow> key_of t j;
       if entry_less kj k then M_insert t x y k v else Some (j, t)
     }
   }"

text \<open>
  The two branches of the hinted \<^verbatim>\<open>_M_insert_unique_(position, v)\<close> that
  \<^verbatim>\<open>operator[]\<close> reaches: the hint is \<^verbatim>\<open>end()\<close>, or it is a node whose key the new key
  is less than.
\<close>

definition insert_hint_end ::
  "Rb_tree \<Rightarrow> PermCheckedEntry \<Rightarrow> bool \<Rightarrow> (ptr \<times> Rb_tree) option" where
  "insert_hint_end t k v = do {
     after_rightmost \<leftarrow> (if map_size t > 0
                         then map_option (\<lambda>kr. entry_less kr k) (key_of t (header_right t))
                         else Some False);
     if after_rightmost then M_insert t Null (header_right t) k v
     else M_insert_unique t k v
   }"

definition insert_hint_before ::
  "Rb_tree \<Rightarrow> ptr \<Rightarrow> PermCheckedEntry \<Rightarrow> bool \<Rightarrow> (ptr \<times> Rb_tree) option" where
  "insert_hint_before t position k v =
     (if position = header_left t then M_insert t (header_left t) (header_left t) k v
      else do {
        prev \<leftarrow> Rb_tree_decrement t position;
        kb \<leftarrow> key_of t prev;
        if entry_less kb k then do {
          br \<leftarrow> right_of t prev;
          if br = Null then M_insert t Null prev k v
          else M_insert t position position k v
        }
        else M_insert_unique t k v
      })"

text \<open>
  \<^verbatim>\<open>operator[](k)\<close>: \<open>i = lower_bound(k)\<close>; when \<open>i\<close> is \<^verbatim>\<open>end()\<close> or \<open>k\<close> is less than
  the key of \<open>i\<close>, a node with the value \<^verbatim>\<open>bool()\<close> is inserted with the hint \<open>i\<close>. The
  result is the node whose value the caller reads or assigns, and the tree.
\<close>

definition map_subscript :: "Rb_tree \<Rightarrow> PermCheckedEntry \<Rightarrow> (ptr \<times> Rb_tree) option" where
  "map_subscript t k = do {
     i \<leftarrow> lower_bound t k;
     if i = Header then insert_hint_end t k False
     else do {
       ki \<leftarrow> key_of t i;
       if entry_less k ki then insert_hint_before t i k False else Some (i, t)
     }
   }"

type_synonym PermMap = Rb_tree

text \<open>
  The cache write of \<^verbatim>\<open>DoPeerPermissionInquiry\<close> (lines 94 to 98). The capacity
  \<^verbatim>\<open>MAX_PERM_CHECKEDCALL_SIZE\<close> is declared in a header outside the sources at hand, so
  it is a parameter.
\<close>

definition record_verdict ::
  "nat \<Rightarrow> PermMap \<Rightarrow> PermCheckedEntry \<Rightarrow> bool \<Rightarrow> PermMap option" where
  "record_verdict MAX_PERM_CHECKEDCALL_SIZE m k allowed = do {
     m \<leftarrow> (if map_size m > MAX_PERM_CHECKEDCALL_SIZE then map_clear m else Some m);
     (i, m) \<leftarrow> map_subscript m k;
     set_value m i allowed
   }"

text \<open>
  A run of cache writes: the sizes that the writes found at line 94, in order, and the
  cache after the last one.
\<close>

fun record_all ::
  "nat \<Rightarrow> PermMap \<Rightarrow> (PermCheckedEntry \<times> bool) list \<Rightarrow> (nat list \<times> PermMap) option" where
  "record_all cap m [] = Some ([], m)"
| "record_all cap m ((k, v) # ops) = do {
     m' \<leftarrow> record_verdict cap m k v;
     (sizes, m'') \<leftarrow> record_all cap m' ops;
     Some (map_size m # sizes, m'')
   }"

subsection \<open>Messages\<close>

text \<open>
  The accessors of \<^verbatim>\<open>Message\<close> the code reads: sender, object path, interface, member
  name, the header flags (a byte) and the printable description.
\<close>

record Message =
  GetSender :: string
  GetObjectPath :: string
  GetInterface :: string
  GetMemberName :: string
  GetFlags :: "8 word"
  Description :: string

definition permChkEntry :: "Message \<Rightarrow> PermCheckedEntry" where
  "permChkEntry message =
     \<lparr>sender = GetSender message, sourcePath = GetObjectPath message,
      iface = GetInterface message, signalName = GetMemberName message\<rparr>"

subsection \<open>Splitting the permission string\<close>

text \<open>\<^verbatim>\<open>find_first_of(";")\<close>: the index of the first separator, \<^const>\<open>None\<close> for \<^verbatim>\<open>npos\<close>.\<close>

fun find_first_of :: "string \<Rightarrow> char \<Rightarrow> nat option" where
  "find_first_of [] c = None"
| "find_first_of (x # xs) c =
     (if x = c then Some 0 else map_option Suc (find_first_of xs c))"

text \<open>
  The loop of lines 62 to 66: the text before the first separator goes into the set and is
  erased from the string together with the separator. The string is passed by reference,
  so the loop also returns what is left of it.
\<close>

function split_perms :: "string \<Rightarrow> string set \<Rightarrow> string set \<times> string" where
  "split_perms permsStr permsReq =
     (case find_first_of permsStr CHR '';'' of
        None \<Rightarrow> (permsReq, permsStr)
      | Some pos \<Rightarrow> split_perms (drop (pos + 1) permsStr) (insert (take pos permsStr) permsReq))"
  by pat_completeness auto
termination
proof (relation "measure (\<lambda>(permsStr, permsReq). length permsStr)")
  show "wf (measure (\<lambda>(permsStr, permsReq). length permsStr))"
    by simp
next
  fix permsStr :: string and permsReq :: "string set" and pos :: nat
  assume "find_first_of permsStr CHR '';'' = Some pos"
  then have "permsStr \<noteq> []"
    by (cases permsStr) simp_all
  then show "((drop (pos + 1) permsStr, insert (take pos permsStr) permsReq), (permsStr, permsReq))
      \<in> measure (\<lambda>(permsStr, permsReq). length permsStr)"
    by simp
qed

declare split_perms.simps [simp del]

text \<open>Lines 60 to 69: the loop, then the rest of the string when it is not empty.\<close>

definition parse_perms :: "string \<Rightarrow> string set" where
  "parse_perms permsStr =
     (case split_perms permsStr {} of
        (permsReq, rest) \<Rightarrow> (if length rest > 0 then insert rest permsReq else permsReq))"

subsection \<open>The inquiry and the cached query\<close>

datatype PeerPermStatus = PP_ALLOWED | PP_DENIED | PP_PENDING

text \<open>
  \<^verbatim>\<open>DoPeerPermissionInquiry\<close>. The daemon's \<^verbatim>\<open>GetConnectionUnixUser\<close> is a function
  from the sender's name to the status of the call and the \<^verbatim>\<open>uint32\<close> of the reply;
  \<^verbatim>\<open>PermissionDB::VerifyPeerPermissions\<close> is a function of the user id and the required
  permissions. The result is the verdict and the cache after the write; the function
  returns only when the write to the cache does.
\<close>

definition DoPeerPermissionInquiry ::
  "nat \<Rightarrow> (string \<Rightarrow> QStatus \<times> 32 word) \<Rightarrow> (32 word \<Rightarrow> string set \<Rightarrow> bool) \<Rightarrow>
   PermMap \<Rightarrow> Message \<Rightarrow> string \<Rightarrow> (PeerPermStatus \<times> PermMap) option" where
  "DoPeerPermissionInquiry MAX_PERM_CHECKEDCALL_SIZE GetConnectionUnixUser VerifyPeerPermissions
     permCheckedCallMap message permsStr =
     (let permsReq = parse_perms permsStr;
          (status, reply) = GetConnectionUnixUser (GetSender message);
          userId = (if status = ER_OK then reply else - 1);
          allowed = (if userId \<noteq> - 1 then VerifyPeerPermissions userId permsReq else True)
      in do {
        permCheckedCallMap' \<leftarrow>
          record_verdict MAX_PERM_CHECKEDCALL_SIZE permCheckedCallMap (permChkEntry message) allowed;
        Some (if allowed then PP_ALLOWED else PP_DENIED, permCheckedCallMap')
      })"

text \<open>
  \<^verbatim>\<open>PeerPermission::CanPeerDoCall\<close>, lines 110 to 122: \<^verbatim>\<open>find\<close>, and when the
  iterator is not \<^verbatim>\<open>end()\<close> the value is read through \<^verbatim>\<open>operator[]\<close> (line 115). The
  result is the answer and the cache.
\<close>

definition CanPeerDoCall :: "PermMap \<Rightarrow> Message \<Rightarrow> (PeerPermStatus \<times> PermMap) option" where
  "CanPeerDoCall permCheckedCallMap message = do {
     it \<leftarrow> map_find permCheckedCallMap (permChkEntry message);
     if it \<noteq> Header then do {
       (i, permCheckedCallMap') \<leftarrow> map_subscript permCheckedCallMap (permChkEntry message);
       allowed \<leftarrow> value_of permCheckedCallMap' i;
       Some (if \<not> allowed then PP_ALLOWED else PP_DENIED, permCheckedCallMap')
     }
     else Some (PP_PENDING, permCheckedCallMap)
   }"

subsection \<open>The tasks handed to the thread pool\<close>

text \<open>
  A method table entry, and the receiver, handler and member of a signal table entry, are
  pointers; the model keeps them as numbers.
\<close>

record SignalEntry =
  sig_object :: nat
  sig_handler :: nat
  sig_member :: nat

datatype Runnable =
  MethodCallRunnableAuth nat Message string
| SignalCallRunnableAuth nat nat nat Message string

text \<open>What a task does to the local endpoint and to the application, in order.\<close>

datatype Action =
  DoCallMethodHandler nat Message
| SendErrMessage Message string string
| SignalHandlerCall nat nat nat string Message

text \<open>
  \<^verbatim>\<open>MethodCallRunnableAuth::Run\<close>. \<^verbatim>\<open>QCC_StatusText\<close> is declared in Status.h and
  defined elsewhere, and the flag mask \<^verbatim>\<open>ALLJOYN_FLAG_NO_REPLY_EXPECTED\<close> comes from a
  header outside the sources at hand: both are parameters. In C, \<^verbatim>\<open>!(flags & mask)\<close>
  holds when no bit of the mask is set. The log line is not modelled.
\<close>

definition MethodCallRunnableAuth_Run ::
  "nat \<Rightarrow> (string \<Rightarrow> QStatus \<times> 32 word) \<Rightarrow> (32 word \<Rightarrow> string set \<Rightarrow> bool) \<Rightarrow>
   (QStatus \<Rightarrow> string) \<Rightarrow> 8 word \<Rightarrow>
   PermMap \<Rightarrow> nat \<Rightarrow> Message \<Rightarrow> string \<Rightarrow> (Action list \<times> PermMap) option" where
  "MethodCallRunnableAuth_Run MAX_PERM_CHECKEDCALL_SIZE GetConnectionUnixUser VerifyPeerPermissions
     QCC_StatusText ALLJOYN_FLAG_NO_REPLY_EXPECTED permCheckedCallMap entry message permStr = do {
     (pps, permCheckedCallMap') \<leftarrow>
       DoPeerPermissionInquiry MAX_PERM_CHECKEDCALL_SIZE GetConnectionUnixUser
         VerifyPeerPermissions permCheckedCallMap message permStr;
     Some (if pps = PP_ALLOWED then [DoCallMethodHandler entry message]
           else if GetFlags message AND ALLJOYN_FLAG_NO_REPLY_EXPECTED = 0
             then [SendErrMessage message
                     (''org.alljoyn.Bus.'' @ QCC_StatusText ER_ALLJOYN_ACCESS_PERMISSION_ERROR)
                     (Description message)]
             else [],
           permCheckedCallMap')
   }"

text \<open>\<^verbatim>\<open>SignalCallRunnableAuth::Run\<close>: a denied signal is dropped.\<close>

definition SignalCallRunnableAuth_Run ::
  "nat \<Rightarrow> (string \<Rightarrow> QStatus \<times> 32 word) \<Rightarrow> (32 word \<Rightarrow> string set \<Rightarrow> bool) \<Rightarrow>
   PermMap \<Rightarrow> SignalEntry \<Rightarrow> Message \<Rightarrow> string \<Rightarrow> (Action list \<times> PermMap) option" where
  "SignalCallRunnableAuth_Run MAX_PERM_CHECKEDCALL_SIZE GetConnectionUnixUser VerifyPeerPermissions
     permCheckedCallMap callit message permStr = do {
     (pps, permCheckedCallMap') \<leftarrow>
       DoPeerPermissionInquiry MAX_PERM_CHECKEDCALL_SIZE GetConnectionUnixUser
         VerifyPeerPermissions permCheckedCallMap message permStr;
     Some (if pps = PP_ALLOWED
             then [SignalHandlerCall (sig_object callit) (sig_handler callit) (sig_member callit)
                     (GetObjectPath message) message]
             else [],
           permCheckedCallMap')
   }"

subsection \<open>The thread pool and the submit loops\<close>

text \<open>
  Modelled from the spec: the worker pool (\<^verbatim>\<open>ThreadPool\<close> is not among the sources),
  with \<^verbatim>\<open>waitForSlot() -> Status\<close> and \<^verbatim>\<open>tryExecute(task) -> Status\<close>. The pool is
  scripted: it answers the calls of each kind with the statuses of a list, in order, and
  keeps a log of the tasks handed to \<^verbatim>\<open>Execute\<close> with the status it gave. A call the
  script has no answer for does not return (\<^const>\<open>None\<close>).
\<close>

record ThreadPool =
  waitResponses :: "QStatus list"
  executeResponses :: "QStatus list"
  executed :: "(Runnable \<times> QStatus) list"

definition WaitForAvailableThread :: "ThreadPool \<Rightarrow> (QStatus \<times> ThreadPool) option" where
  "WaitForAvailableThread threadPool =
     (case waitResponses threadPool of
        [] \<Rightarrow> None
      | status # rest \<Rightarrow> Some (status, threadPool\<lparr>waitResponses := rest\<rparr>))"

definition Execute :: "ThreadPool \<Rightarrow> Runnable \<Rightarrow> (QStatus \<times> ThreadPool) option" where
  "Execute threadPool runnable =
     (case executeResponses threadPool of
        [] \<Rightarrow> None
      | status # rest \<Rightarrow>
          Some (status, threadPool\<lparr>executeResponses := rest,
                                   executed := executed threadPool @ [(runnable, status)]\<rparr>))"

text \<open>
  The \<^verbatim>\<open>for (;;)\<close> loop of both submit functions (lines 200 to 212 and 229 to 241).
  Every turn consumes one answer of \<^verbatim>\<open>WaitForAvailableThread\<close>.
\<close>

function submit_loop :: "Runnable \<Rightarrow> ThreadPool \<Rightarrow> (QStatus \<times> ThreadPool) option" where
  "submit_loop runnable threadPool =
     (case WaitForAvailableThread threadPool of
        None \<Rightarrow> None
      | Some (status, threadPool') \<Rightarrow>
          (if status \<noteq> ER_OK then Some (status, threadPool')
           else (case Execute threadPool' runnable of
                   None \<Rightarrow> None
                 | Some (status', threadPool'') \<Rightarrow>
                     (if status' = ER_THREADPOOL_EXHAUSTED then submit_loop runnable threadPool''
                      else Some (status', threadPool'')))))"
  by pat_completeness auto
termination
  by (relation "measure (\<lambda>(runnable, threadPool). length (waitResponses threadPool))")
     (auto simp: WaitForAvailableThread_def Execute_def split: list.splits)

declare submit_loop.simps [simp del]

definition PeerAuthAndHandleMethodCall ::
  "Message \<Rightarrow> nat \<Rightarrow> ThreadPool \<Rightarrow> string \<Rightarrow> (QStatus \<times> ThreadPool) option" where
  "PeerAuthAndHandleMethodCall message entry threadPool permStr =
     submit_loop (MethodCallRunnableAuth entry message permStr) threadPool"

text \<open>
  The loop over the call list of \<^verbatim>\<open>PeerAuthAndHandleSignalCall\<close>: a new task for each
  entry (lines 223 to 228), then the submit loop. \<open>status\<close> is the variable the function
  returns at the end.
\<close>

definition NewSignalCallRunnableAuth :: "SignalEntry \<Rightarrow> Message \<Rightarrow> string \<Rightarrow> Runnable" where
  "NewSignalCallRunnableAuth callit message permStr =
     SignalCallRunnableAuth (sig_object callit) (sig_handler callit) (sig_member callit)
       message permStr"

fun signal_calls ::
  "Message \<Rightarrow> string \<Rightarrow> QStatus \<Rightarrow> SignalEntry list \<Rightarrow> ThreadPool \<Rightarrow> (QStatus \<times> ThreadPool) option" where
  "signal_calls message permStr status [] threadPool = Some (status, threadPool)"
| "signal_calls message permStr status (callit # callList) threadPool =
     (case submit_loop (NewSignalCallRunnableAuth callit message permStr) threadPool of
        None \<Rightarrow> None
      | Some (status', threadPool') \<Rightarrow> signal_calls message permStr status' callList threadPool')"

definition PeerAuthAndHandleSignalCall ::
  "Message \<Rightarrow> SignalEntry list \<Rightarrow> ThreadPool \<Rightarrow> string \<Rightarrow> (QStatus \<times> ThreadPool) option" where
  "PeerAuthAndHandleSignalCall message callList threadPool permStr =
     signal_calls message permStr ER_OK callList threadPool"

subsection \<open>Reference definitions for the comparisons\<close>

text \<open>
  The fields of a string between separators, as the data model describes the permission
  string: the text is cut at every \<^verbatim>\<open>;\<close>. It is only compared with
  \<^const>\<open>parse_perms\<close>.
\<close>

fun fields_spec :: "string \<Rightarrow> string list" where
  "fields_spec [] = [[]]"
| "fields_spec (c # cs) =
     (if c = CHR '';'' then [] # fields_spec cs
      else (c # hd (fields_spec cs)) # tl (fields_spec cs))"

subsection \<open>Inputs of the examples\<close>

text \<open>
  The call of the scenario: the signature (peerA, /app, com.example.I, DoThing), with a
  reply expected, and the same call with the first flag bit set.
\<close>

definition scenario_message :: Message where
  "scenario_message =
     \<lparr>GetSender = ''peerA'', GetObjectPath = ''/app'', GetInterface = ''com.example.I'',
      GetMemberName = ''DoThing'', GetFlags = 0, Description = ''METHOD_CALL DoThing''\<rparr>"

definition scenario_message_no_reply :: Message where
  "scenario_message_no_reply = scenario_message\<lparr>GetFlags := 1\<rparr>"

definition subscriber_1 :: SignalEntry where
  "subscriber_1 = \<lparr>sig_object = 1, sig_handler = 2, sig_member = 3\<rparr>"

definition subscriber_2 :: SignalEntry where
  "subscriber_2 = \<lparr>sig_object = 4, sig_handler = 5, sig_member = 6\<rparr>"

text \<open>
  The tree after one insertion into an empty map: one black node that is root, leftmost
  and rightmost.
\<close>

definition single_entry_cache :: "PermCheckedEntry \<Rightarrow> bool \<Rightarrow> PermMap" where
  "single_entry_cache k v =
     \<lparr>header_color = S_red, header_parent = Addr 0, header_left = Addr 0, header_right = Addr 0,
      M_node_count = 1,
      nodes = [\<lparr>M_color = S_black, M_parent = Header, M_left = Null, M_right = Null,
                M_key = k, M_value = v\<rparr>]\<rparr>"

definition entry_a :: PermCheckedEntry where
  "entry_a = \<lparr>sender = ''b'', sourcePath = ''p'', iface = ''i'', signalName = ''m''\<rparr>"

definition entry_b :: PermCheckedEntry where
  "entry_b = \<lparr>sender = ''a'', sourcePath = ''p'', iface = ''j'', signalName = ''m''\<rparr>"

definition entry_c :: PermCheckedEntry where
  "entry_c = \<lparr>sender = ''c'', sourcePath = ''p'', iface = ''i'', signalName = ''m''\<rparr>"

section \<open>The permission string\<close>

lemma fields_spec_not_Nil: "fields_spec s \<noteq> []"
  by (induction s) auto

lemma fields_spec_no_separator:
  "find_first_of s CHR '';'' = None \<Longrightarrow> fields_spec s = [s]"
  by (induction s) (auto split: if_splits)

lemma fields_spec_separator:
  "find_first_of s CHR '';'' = Some pos \<Longrightarrow>
   fields_spec s = take pos s # fields_spec (drop (pos + 1) s)"
proof (induction s arbitrary: pos)
  case Nil
  then show ?case by simp
next
  case (Cons c cs)
  show ?case
  proof (cases "c = CHR '';''")
    case True
    with Cons.prems show ?thesis by simp
  next
    case False
    with Cons.prems obtain p where p: "find_first_of cs CHR '';'' = Some p" "pos = Suc p"
      by auto
    from Cons.IH [OF p(1)] False p(2) show ?thesis by simp
  qed
qed

text \<open>
  The loop moves every field but the last into the set and leaves the last field in the
  string.
\<close>

lemma split_perms_fields:
  "split_perms s acc = (acc \<union> set (butlast (fields_spec s)), last (fields_spec s))"
proof (induction s acc rule: split_perms.induct)
  case (1 permsStr permsReq)
  show ?case
  proof (cases "find_first_of permsStr CHR '';''")
    case None
    then show ?thesis
      by (simp add: split_perms.simps [of permsStr] fields_spec_no_separator)
  next
    case (Some pos)
    from "1.IH" [OF Some] Some show ?thesis
      by (simp add: split_perms.simps [of permsStr] fields_spec_separator fields_spec_not_Nil)
  qed
qed

text \<open>
  C10. The required set holds every field that is followed by a separator, the empty ones
  too; the text after the last separator is in the set unless it is empty. So
  \<^verbatim>\<open>net;;admin\<close> gives the three tokens \<^verbatim>\<open>net\<close>, the empty string and
  \<^verbatim>\<open>admin\<close>, a leading separator gives the empty token, and a trailing separator
  adds nothing.
\<close>

theorem parse_perms_fields:
  "parse_perms s =
     set (butlast (fields_spec s)) \<union>
     (if last (fields_spec s) = [] then {} else {last (fields_spec s)})
   \<and> parse_perms ''net;;admin'' = {''net'', '''', ''admin''}
   \<and> parse_perms '';net'' = {'''', ''net''}
   \<and> parse_perms ''net;'' = {''net''}"
proof -
  have "parse_perms t =
     set (butlast (fields_spec t)) \<union>
     (if last (fields_spec t) = [] then {} else {last (fields_spec t)})" for t
    by (auto simp: parse_perms_def split_perms_fields)
  then show ?thesis by auto
qed

section \<open>The order of call signatures\<close>

text \<open>
  C2. The comparison is not the lexicographic order and not a strict order: the third and
  the fourth disjunct do not ask the earlier fields to be equal. For the signatures
  (b, p, i, m) and (a, p, j, m) each compares less than the other, while the
  lexicographic order puts only the second before the first.
\<close>

theorem entry_less_both_ways:
  "entry_less entry_a entry_b \<and> entry_less entry_b entry_a
   \<and> \<not> entry_less_lexicographic_spec entry_a entry_b
   \<and> entry_less_lexicographic_spec entry_b entry_a"
  by (simp add: entry_less_def entry_less_lexicographic_spec_def entry_a_def entry_b_def)

section \<open>The cache with one entry\<close>

lemma entry_less_irrefl: "\<not> entry_less k k"
  by (simp add: entry_less_def)

text \<open>The write into the empty cache makes the one-node tree, whatever the capacity.\<close>

lemma record_verdict_empty:
  "record_verdict cap Rb_tree_empty k v = Some (single_entry_cache k v)"
  by (simp add: record_verdict_def map_size_def map_subscript_def lower_bound_def fuel_def
      insert_hint_end_def M_insert_unique_def M_insert_def Rb_tree_insert_and_rebalance_def
      set_left_def set_color_def set_value_def node_at_def Rb_tree_empty_def
      single_entry_cache_def Let_def)

lemma map_find_single: "map_find (single_entry_cache k v) k = Some (Addr 0)"
  by (simp add: map_find_def lower_bound_def fuel_def key_of_def left_of_def node_at_def
      single_entry_cache_def entry_less_irrefl)

lemma map_subscript_single:
  "map_subscript (single_entry_cache k v) k = Some (Addr 0, single_entry_cache k v)"
  by (simp add: map_subscript_def lower_bound_def fuel_def key_of_def left_of_def node_at_def
      single_entry_cache_def entry_less_irrefl)

lemma value_of_single: "value_of (single_entry_cache k v) (Addr 0) = Some v"
  by (simp add: value_of_def node_at_def single_entry_cache_def)

lemma CanPeerDoCall_single:
  "CanPeerDoCall (single_entry_cache (permChkEntry message) v) message =
     Some (if \<not> v then PP_ALLOWED else PP_DENIED, single_entry_cache (permChkEntry message) v)"
  by (simp add: CanPeerDoCall_def map_find_single map_subscript_single value_of_single)

lemma CanPeerDoCall_empty: "CanPeerDoCall Rb_tree_empty message = Some (PP_PENDING, Rb_tree_empty)"
  by (simp add: CanPeerDoCall_def map_find_def lower_bound_def fuel_def Rb_tree_empty_def)

section \<open>The inquiry and the cached query\<close>



text \<open>
  C1. In the scenario the daemon resolves the sender to user 1000 and the permission
  database refuses the set of net and admin: the inquiry on the empty cache returns Denied
  and leaves the signature cached with the verdict false, and the cached query for the
  same signature then returns Allowed. A cached verdict true is answered with Denied. The
  answer for the empty cache is Pending.
\<close>

theorem cached_query_inverted:
  "DoPeerPermissionInquiry 2 (\<lambda>sender. (ER_OK, 1000)) (\<lambda>userId permsReq. False) Rb_tree_empty
     scenario_message ''net;admin''
     = Some (PP_DENIED, single_entry_cache (permChkEntry scenario_message) False)
   \<and> CanPeerDoCall (single_entry_cache (permChkEntry scenario_message) False) scenario_message
     = Some (PP_ALLOWED, single_entry_cache (permChkEntry scenario_message) False)
   \<and> CanPeerDoCall (single_entry_cache (permChkEntry scenario_message) True) scenario_message
     = Some (PP_DENIED, single_entry_cache (permChkEntry scenario_message) True)
   \<and> CanPeerDoCall Rb_tree_empty scenario_message = Some (PP_PENDING, Rb_tree_empty)"
  by (simp add: DoPeerPermissionInquiry_def record_verdict_empty CanPeerDoCall_single
      CanPeerDoCall_empty ER_OK_def)




section \<open>Reading back and bounding the cache\<close>

text \<open>
  C6. The lookup right after a write can miss the entry. With the signature
  (b, p, i, m) cached, the write for (a, p, j, m) does not find a place by the order:
  \<^verbatim>\<open>lower_bound\<close> goes right at the root, because the root compares less than the new
  key, and ends at \<^verbatim>\<open>end()\<close>; the new node is then linked to the left of the root,
  because the new key compares less than the root as well. The map has two nodes, and
  \<^verbatim>\<open>find\<close> for the signature just written goes right at the root again and returns
  \<^verbatim>\<open>end()\<close>, so the cached query answers Pending.
\<close>

theorem lookup_after_record_misses:
  "record_verdict 5 Rb_tree_empty entry_a True = Some (single_entry_cache entry_a True)
   \<and> map_option map_size (record_verdict 5 (single_entry_cache entry_a True) entry_b False)
       = Some 2
   \<and> record_verdict 5 (single_entry_cache entry_a True) entry_b False
         \<bind> (\<lambda>m. left_of m (Addr 0) \<bind> value_of m) = Some False
   \<and> record_verdict 5 (single_entry_cache entry_a True) entry_b False
         \<bind> (\<lambda>m. map_find m entry_b) = Some Header
   \<and> record_verdict 5 (single_entry_cache entry_a True) entry_b False
         \<bind> (\<lambda>m. map_find m entry_a) = Some (Addr 0)"
  by code_simp

text \<open>
  C7. With the capacity 1, the writes for two distinct signatures into the empty cache
  find the sizes 0 and 1: neither clears, and the cache then holds two entries, one more
  than the capacity that the comment of line 93 gives as the limit. A signature that is
  written again is not always overwritten: after the writes for (b, p, i, m),
  (a, p, j, m) and (a, p, j, m) again the count is 3, and with the capacity 2 a fourth
  write finds the size 3 and clears.
\<close>

theorem cache_exceeds_capacity:
  "map_option (\<lambda>(sizes, m). (sizes, map_size m))
     (record_all 1 Rb_tree_empty [(entry_a, True), (entry_c, False)]) = Some ([0, 1], 2)
   \<and> map_option (\<lambda>(sizes, m). (sizes, map_size m))
       (record_all 5 Rb_tree_empty [(entry_a, True), (entry_b, False), (entry_b, False)])
       = Some ([0, 1, 2], 3)
   \<and> map_option (\<lambda>(sizes, m). (sizes, map_size m))
       (record_all 2 Rb_tree_empty
          [(entry_a, True), (entry_b, False), (entry_b, False), (entry_c, True)])
       = Some ([0, 1, 2, 3], 1)"
  by code_simp

section \<open>The method-call task\<close>

text \<open>
  C5. When the inquiry denies and no bit of the no-reply mask is set in the flags, the
  task sends one error reply and nothing else: its name is \<^verbatim>\<open>org.alljoyn.Bus.\<close>
  followed by the text of \<^verbatim>\<open>ER_ALLJOYN_ACCESS_PERMISSION_ERROR\<close>, its message is the
  description of the call. When the inquiry denies and the flag is set, the task does
  nothing. When the inquiry allows, the task calls the handler with the entry and the
  message and sends nothing. The task returns whenever its inquiry does.
\<close>

theorem method_call_task:
  "(DoPeerPermissionInquiry cap GetConnectionUnixUser VerifyPeerPermissions m message permStr
      = Some (pps, m') \<longrightarrow>
      (pps = PP_DENIED \<and> GetFlags message AND ALLJOYN_FLAG_NO_REPLY_EXPECTED = 0 \<longrightarrow>
         MethodCallRunnableAuth_Run cap GetConnectionUnixUser VerifyPeerPermissions
           QCC_StatusText ALLJOYN_FLAG_NO_REPLY_EXPECTED m entry message permStr
         = Some ([SendErrMessage message
                    (''org.alljoyn.Bus.'' @ QCC_StatusText ER_ALLJOYN_ACCESS_PERMISSION_ERROR)
                    (Description message)], m'))
    \<and> (pps = PP_DENIED \<and> GetFlags message AND ALLJOYN_FLAG_NO_REPLY_EXPECTED \<noteq> 0 \<longrightarrow>
         MethodCallRunnableAuth_Run cap GetConnectionUnixUser VerifyPeerPermissions
           QCC_StatusText ALLJOYN_FLAG_NO_REPLY_EXPECTED m entry message permStr
         = Some ([], m'))
    \<and> (pps = PP_ALLOWED \<longrightarrow>
         MethodCallRunnableAuth_Run cap GetConnectionUnixUser VerifyPeerPermissions
           QCC_StatusText ALLJOYN_FLAG_NO_REPLY_EXPECTED m entry message permStr
         = Some ([DoCallMethodHandler entry message], m')))
   \<and> ((MethodCallRunnableAuth_Run cap GetConnectionUnixUser VerifyPeerPermissions
          QCC_StatusText ALLJOYN_FLAG_NO_REPLY_EXPECTED m entry message permStr = None)
       = (DoPeerPermissionInquiry cap GetConnectionUnixUser VerifyPeerPermissions m message permStr
          = None))"
  by (cases "DoPeerPermissionInquiry cap GetConnectionUnixUser VerifyPeerPermissions m message
        permStr")
     (auto simp: MethodCallRunnableAuth_Run_def)

theorem method_call_task_witness:
  "MethodCallRunnableAuth_Run 2 (\<lambda>sender. (ER_OK, 1000)) (\<lambda>userId permsReq. False)
     (\<lambda>status. ''ER_ALLJOYN_ACCESS_PERMISSION_ERROR'') 1 Rb_tree_empty 7 scenario_message
     ''net;admin''
   = Some ([SendErrMessage scenario_message ''org.alljoyn.Bus.ER_ALLJOYN_ACCESS_PERMISSION_ERROR''
              ''METHOD_CALL DoThing''],
           single_entry_cache (permChkEntry scenario_message) False)
   \<and> MethodCallRunnableAuth_Run 2 (\<lambda>sender. (ER_OK, 1000)) (\<lambda>userId permsReq. False)
       (\<lambda>status. ''ER_ALLJOYN_ACCESS_PERMISSION_ERROR'') 1 Rb_tree_empty 7
       scenario_message_no_reply ''net;admin''
     = Some ([], single_entry_cache (permChkEntry scenario_message_no_reply) False)
   \<and> MethodCallRunnableAuth_Run 2 (\<lambda>sender. (ER_OK, 1000)) (\<lambda>userId permsReq. True)
       (\<lambda>status. ''ER_ALLJOYN_ACCESS_PERMISSION_ERROR'') 1 Rb_tree_empty 7 scenario_message
       ''net;admin''
     = Some ([DoCallMethodHandler 7 scenario_message],
             single_entry_cache (permChkEntry scenario_message) True)"
proof -
  have denied: "DoPeerPermissionInquiry 2 (\<lambda>sender. (ER_OK, 1000)) (\<lambda>userId permsReq. False)
      Rb_tree_empty msg ''net;admin'' = Some (PP_DENIED, single_entry_cache (permChkEntry msg) False)"
    for msg
    by (simp add: DoPeerPermissionInquiry_def record_verdict_empty)
  have allowed: "DoPeerPermissionInquiry 2 (\<lambda>sender. (ER_OK, 1000)) (\<lambda>userId permsReq. True)
      Rb_tree_empty msg ''net;admin'' = Some (PP_ALLOWED, single_entry_cache (permChkEntry msg) True)"
    for msg
    by (simp add: DoPeerPermissionInquiry_def record_verdict_empty)
  have flags: "GetFlags scenario_message AND 1 = 0" "GetFlags scenario_message_no_reply AND 1 \<noteq> 0"
    "Description scenario_message = ''METHOD_CALL DoThing''"
    by (simp_all add: scenario_message_def scenario_message_no_reply_def)
  from method_call_task [where cap = 2 and GetConnectionUnixUser = "\<lambda>sender. (ER_OK, 1000)"
      and VerifyPeerPermissions = "\<lambda>userId permsReq. False" and m = Rb_tree_empty
      and message = scenario_message and permStr = "''net;admin''" and pps = PP_DENIED
      and m' = "single_entry_cache (permChkEntry scenario_message) False"
      and ALLJOYN_FLAG_NO_REPLY_EXPECTED = 1
      and QCC_StatusText = "\<lambda>status. ''ER_ALLJOYN_ACCESS_PERMISSION_ERROR''" and entry = 7]
    method_call_task [where cap = 2 and GetConnectionUnixUser = "\<lambda>sender. (ER_OK, 1000)"
      and VerifyPeerPermissions = "\<lambda>userId permsReq. False" and m = Rb_tree_empty
      and message = scenario_message_no_reply and permStr = "''net;admin''" and pps = PP_DENIED
      and m' = "single_entry_cache (permChkEntry scenario_message_no_reply) False"
      and ALLJOYN_FLAG_NO_REPLY_EXPECTED = 1
      and QCC_StatusText = "\<lambda>status. ''ER_ALLJOYN_ACCESS_PERMISSION_ERROR''" and entry = 7]
    method_call_task [where cap = 2 and GetConnectionUnixUser = "\<lambda>sender. (ER_OK, 1000)"
      and VerifyPeerPermissions = "\<lambda>userId permsReq. True" and m = Rb_tree_empty
      and message = scenario_message and permStr = "''net;admin''" and pps = PP_ALLOWED
      and m' = "single_entry_cache (permChkEntry scenario_message) True"
      and ALLJOYN_FLAG_NO_REPLY_EXPECTED = 1
      and QCC_StatusText = "\<lambda>status. ''ER_ALLJOYN_ACCESS_PERMISSION_ERROR''" and entry = 7]
  show ?thesis
    using flags denied allowed by simp
qed

section \<open>The submit loops\<close>

text \<open>One turn of the loop in which \<^verbatim>\<open>Execute\<close> reports exhaustion.\<close>

lemma submit_loop_exhausted_turn:
  "waitResponses p = ER_OK # ws \<Longrightarrow> executeResponses p = ER_THREADPOOL_EXHAUSTED # es \<Longrightarrow>
   submit_loop r p =
     submit_loop r (p\<lparr>waitResponses := ws, executeResponses := es,
                       executed := executed p @ [(r, ER_THREADPOOL_EXHAUSTED)]\<rparr>)"
  by (subst submit_loop.simps) (simp add: WaitForAvailableThread_def Execute_def)

lemma submit_loop_wait_failed:
  "waitResponses p = w # ws \<Longrightarrow> w \<noteq> ER_OK \<Longrightarrow>
   submit_loop r p = Some (w, p\<lparr>waitResponses := ws\<rparr>)"
  by (subst submit_loop.simps) (simp add: WaitForAvailableThread_def)

lemma submit_loop_executed:
  "waitResponses p = ER_OK # ws \<Longrightarrow> executeResponses p = e # es \<Longrightarrow>
   e \<noteq> ER_THREADPOOL_EXHAUSTED \<Longrightarrow>
   submit_loop r p =
     Some (e, p\<lparr>waitResponses := ws, executeResponses := es,
                  executed := executed p @ [(r, e)]\<rparr>)"
  by (subst submit_loop.simps) (simp add: WaitForAvailableThread_def Execute_def)

text \<open>After \<open>n\<close> exhausted turns the loop stands where it would with the rest of the script.\<close>

lemma submit_loop_retries:
  "waitResponses p = replicate n ER_OK @ ws \<Longrightarrow>
   executeResponses p = replicate n ER_THREADPOOL_EXHAUSTED @ es \<Longrightarrow>
   submit_loop r p =
     submit_loop r (p\<lparr>waitResponses := ws, executeResponses := es,
                       executed := executed p @ replicate n (r, ER_THREADPOOL_EXHAUSTED)\<rparr>)"
proof (induction n arbitrary: p)
  case 0
  then have "p\<lparr>waitResponses := ws, executeResponses := es, executed := executed p\<rparr> = p"
    by simp
  then show ?case
    by simp
next
  case (Suc n)
  let ?p = "p\<lparr>waitResponses := replicate n ER_OK @ ws,
               executeResponses := replicate n ER_THREADPOOL_EXHAUSTED @ es,
               executed := executed p @ [(r, ER_THREADPOOL_EXHAUSTED)]\<rparr>"
  from Suc.prems have "submit_loop r p = submit_loop r ?p"
    by (intro submit_loop_exhausted_turn) simp_all
  also have "\<dots> = submit_loop r (?p\<lparr>waitResponses := ws, executeResponses := es,
      executed := executed ?p @ replicate n (r, ER_THREADPOOL_EXHAUSTED)\<rparr>)"
    by (rule Suc.IH) simp_all
  finally show ?case
    by (simp add: replicate_app_Cons_same)
qed

text \<open>The exhausted status comes out of the loop only when the wait reported it.\<close>

lemma submit_loop_exhausted_from_wait:
  "submit_loop r p = Some (status, p') \<Longrightarrow> status = ER_THREADPOOL_EXHAUSTED \<Longrightarrow>
   ER_THREADPOOL_EXHAUSTED \<in> set (waitResponses p)"
proof (induction r p rule: submit_loop.induct)
  case (1 runnable threadPool)
  show ?case
  proof (cases "waitResponses threadPool")
    case Nil
    with "1.prems" show ?thesis
      by (subst (asm) submit_loop.simps) (simp add: WaitForAvailableThread_def)
  next
    case (Cons w ws)
    show ?thesis
    proof (cases "w = ER_OK")
      case False
      with Cons "1.prems" show ?thesis
        by (simp add: submit_loop_wait_failed)
    next
      case True
      show ?thesis
      proof (cases "executeResponses threadPool")
        case Nil
        with Cons True "1.prems" show ?thesis
          by (subst (asm) submit_loop.simps) (simp add: WaitForAvailableThread_def Execute_def)
      next
        case (Cons e es)
        note ex = this
        show ?thesis
        proof (cases "e = ER_THREADPOOL_EXHAUSTED")
          case False
          with \<open>waitResponses threadPool = w # ws\<close> True ex "1.prems" show ?thesis
            by (simp add: submit_loop_executed)
        next
          case exh: True
          let ?p1 = "threadPool\<lparr>waitResponses := ws\<rparr>"
          let ?p2 = "threadPool\<lparr>waitResponses := ws, executeResponses := es,
                       executed := executed threadPool @ [(runnable, ER_THREADPOOL_EXHAUSTED)]\<rparr>"
          have w: "WaitForAvailableThread threadPool = Some (ER_OK, ?p1)"
            using \<open>waitResponses threadPool = w # ws\<close> True
            by (simp add: WaitForAvailableThread_def)
          have e: "Execute ?p1 runnable = Some (ER_THREADPOOL_EXHAUSTED, ?p2)"
            using ex exh by (simp add: Execute_def)
          have "submit_loop runnable threadPool = submit_loop runnable ?p2"
            using \<open>waitResponses threadPool = w # ws\<close> True ex exh
            by (simp add: submit_loop_exhausted_turn)
          with "1.prems" have "submit_loop runnable ?p2 = Some (status, p')"
            by simp
          from "1.IH" [OF w refl _ e refl _ this "1.prems"(2)]
          have "ER_THREADPOOL_EXHAUSTED \<in> set (waitResponses ?p2)"
            by simp
          with \<open>waitResponses threadPool = w # ws\<close> show ?thesis
            by simp
        qed
      qed
    qed
  qed
qed

text \<open>
  C4 as stated fails for a pool whose \<^verbatim>\<open>WaitForAvailableThread\<close> itself answers
  \<^verbatim>\<open>ER_THREADPOOL_EXHAUSTED\<close>: the status is not \<^verbatim>\<open>ER_OK\<close>, so the loop breaks and
  returns it.
\<close>

theorem submit_returns_exhausted_counterexample:
  "PeerAuthAndHandleMethodCall scenario_message 7
     \<lparr>waitResponses = [ER_THREADPOOL_EXHAUSTED], executeResponses = [], executed = []\<rparr> ''net''
   = Some (ER_THREADPOOL_EXHAUSTED, \<lparr>waitResponses = [], executeResponses = [], executed = []\<rparr>)"
  by (simp add: PeerAuthAndHandleMethodCall_def submit_loop_wait_failed
      ER_THREADPOOL_EXHAUSTED_def ER_OK_def)

text \<open>
  C4, amended. The loop returns the exhausted status only when
  \<^verbatim>\<open>WaitForAvailableThread\<close> reported it, never one that \<^verbatim>\<open>Execute\<close> reported.
  After \<open>n\<close> turns in which the wait succeeds and \<^verbatim>\<open>Execute\<close> reports exhaustion, a
  wait that fails ends the loop with its status, with no further call of the pool; and a
  wait that succeeds followed by an \<^verbatim>\<open>Execute\<close> status other than exhaustion ends the
  loop with that status. In both cases the task was handed to \<^verbatim>\<open>Execute\<close> once per
  turn.
\<close>

theorem submit_loop_outcome:
  "(PeerAuthAndHandleMethodCall message entry p permStr = Some (status, p') \<and>
      ER_THREADPOOL_EXHAUSTED \<notin> set (waitResponses p) \<longrightarrow> status \<noteq> ER_THREADPOOL_EXHAUSTED)
   \<and> (waitResponses p = replicate n ER_OK @ w # ws \<and>
       executeResponses p = replicate n ER_THREADPOOL_EXHAUSTED @ es \<and> w \<noteq> ER_OK \<longrightarrow>
       PeerAuthAndHandleMethodCall message entry p permStr =
         Some (w, p\<lparr>waitResponses := ws, executeResponses := es,
                     executed := executed p @
                       replicate n (MethodCallRunnableAuth entry message permStr,
                                    ER_THREADPOOL_EXHAUSTED)\<rparr>))
   \<and> (waitResponses p = replicate n ER_OK @ ER_OK # ws \<and>
       executeResponses p = replicate n ER_THREADPOOL_EXHAUSTED @ e # es \<and>
       e \<noteq> ER_THREADPOOL_EXHAUSTED \<longrightarrow>
       PeerAuthAndHandleMethodCall message entry p permStr =
         Some (e, p\<lparr>waitResponses := ws, executeResponses := es,
                     executed := executed p @
                       replicate n (MethodCallRunnableAuth entry message permStr,
                                    ER_THREADPOOL_EXHAUSTED)
                       @ [(MethodCallRunnableAuth entry message permStr, e)]\<rparr>))"
proof (intro conjI impI)
  assume "PeerAuthAndHandleMethodCall message entry p permStr = Some (status, p') \<and>
      ER_THREADPOOL_EXHAUSTED \<notin> set (waitResponses p)"
  then show "status \<noteq> ER_THREADPOOL_EXHAUSTED"
    unfolding PeerAuthAndHandleMethodCall_def
    using submit_loop_exhausted_from_wait by blast
next
  let ?r = "MethodCallRunnableAuth entry message permStr"
  assume a: "waitResponses p = replicate n ER_OK @ w # ws \<and>
       executeResponses p = replicate n ER_THREADPOOL_EXHAUSTED @ es \<and> w \<noteq> ER_OK"
  then have "submit_loop ?r p =
      submit_loop ?r (p\<lparr>waitResponses := w # ws, executeResponses := es,
        executed := executed p @ replicate n (?r, ER_THREADPOOL_EXHAUSTED)\<rparr>)"
    by (intro submit_loop_retries) simp_all
  also from a have "\<dots> = Some (w, p\<lparr>waitResponses := ws, executeResponses := es,
        executed := executed p @ replicate n (?r, ER_THREADPOOL_EXHAUSTED)\<rparr>)"
    by (simp add: submit_loop_wait_failed)
  finally show "PeerAuthAndHandleMethodCall message entry p permStr =
         Some (w, p\<lparr>waitResponses := ws, executeResponses := es,
                     executed := executed p @ replicate n (?r, ER_THREADPOOL_EXHAUSTED)\<rparr>)"
    by (simp add: PeerAuthAndHandleMethodCall_def)
next
  let ?r = "MethodCallRunnableAuth entry message permStr"
  assume a: "waitResponses p = replicate n ER_OK @ ER_OK # ws \<and>
       executeResponses p = replicate n ER_THREADPOOL_EXHAUSTED @ e # es \<and>
       e \<noteq> ER_THREADPOOL_EXHAUSTED"
  then have "submit_loop ?r p =
      submit_loop ?r (p\<lparr>waitResponses := ER_OK # ws, executeResponses := e # es,
        executed := executed p @ replicate n (?r, ER_THREADPOOL_EXHAUSTED)\<rparr>)"
    by (intro submit_loop_retries) simp_all
  also from a have "\<dots> = Some (e, p\<lparr>waitResponses := ws, executeResponses := es,
        executed := executed p @ replicate n (?r, ER_THREADPOOL_EXHAUSTED) @ [(?r, e)]\<rparr>)"
    by (simp add: submit_loop_executed)
  finally show "PeerAuthAndHandleMethodCall message entry p permStr =
         Some (e, p\<lparr>waitResponses := ws, executeResponses := es,
                     executed := executed p @ replicate n (?r, ER_THREADPOOL_EXHAUSTED)
                       @ [(?r, e)]\<rparr>)"
    by (simp add: PeerAuthAndHandleMethodCall_def)
qed

theorem submit_loop_outcome_witness:
  "PeerAuthAndHandleMethodCall scenario_message 7
     \<lparr>waitResponses = [ER_OK, ER_OK, ER_OK],
      executeResponses = [ER_THREADPOOL_EXHAUSTED, ER_THREADPOOL_EXHAUSTED, ER_OK],
      executed = []\<rparr> ''net''
   = Some (ER_OK,
       \<lparr>waitResponses = [], executeResponses = [],
        executed = [(MethodCallRunnableAuth 7 scenario_message ''net'', ER_THREADPOOL_EXHAUSTED),
                    (MethodCallRunnableAuth 7 scenario_message ''net'', ER_THREADPOOL_EXHAUSTED),
                    (MethodCallRunnableAuth 7 scenario_message ''net'', ER_OK)]\<rparr>)
   \<and> PeerAuthAndHandleMethodCall scenario_message 7
     \<lparr>waitResponses = [ER_OK, ER_THREADPOOL_STOPPING, ER_OK],
      executeResponses = [ER_THREADPOOL_EXHAUSTED, ER_OK],
      executed = []\<rparr> ''net''
   = Some (ER_THREADPOOL_STOPPING,
       \<lparr>waitResponses = [ER_OK], executeResponses = [ER_OK],
        executed = [(MethodCallRunnableAuth 7 scenario_message ''net'', ER_THREADPOOL_EXHAUSTED)]\<rparr>)"
proof -
  have ne: "ER_OK \<noteq> ER_THREADPOOL_EXHAUSTED" "ER_THREADPOOL_STOPPING \<noteq> ER_OK"
    by (simp_all add: ER_OK_def ER_THREADPOOL_EXHAUSTED_def ER_THREADPOOL_STOPPING_def)
  have r2: "replicate 2 x = [x, x]" and r1: "replicate 1 x = [x]" for x :: "'a"
    by (simp_all add: numeral_2_eq_2)
  have first: "PeerAuthAndHandleMethodCall scenario_message 7
     \<lparr>waitResponses = [ER_OK, ER_OK, ER_OK],
      executeResponses = [ER_THREADPOOL_EXHAUSTED, ER_THREADPOOL_EXHAUSTED, ER_OK],
      executed = []\<rparr> ''net''
   = Some (ER_OK,
       \<lparr>waitResponses = [], executeResponses = [],
        executed = [(MethodCallRunnableAuth 7 scenario_message ''net'', ER_THREADPOOL_EXHAUSTED),
                    (MethodCallRunnableAuth 7 scenario_message ''net'', ER_THREADPOOL_EXHAUSTED),
                    (MethodCallRunnableAuth 7 scenario_message ''net'', ER_OK)]\<rparr>)"
    using submit_loop_outcome [where n = 2 and ws = "[]" and es = "[]" and e = ER_OK
        and message = scenario_message and entry = 7 and permStr = "''net''"
        and p = "\<lparr>waitResponses = [ER_OK, ER_OK, ER_OK],
          executeResponses = [ER_THREADPOOL_EXHAUSTED, ER_THREADPOOL_EXHAUSTED, ER_OK],
          executed = []\<rparr>"] ne
    by (simp add: r2)
  have second: "PeerAuthAndHandleMethodCall scenario_message 7
     \<lparr>waitResponses = [ER_OK, ER_THREADPOOL_STOPPING, ER_OK],
      executeResponses = [ER_THREADPOOL_EXHAUSTED, ER_OK],
      executed = []\<rparr> ''net''
   = Some (ER_THREADPOOL_STOPPING,
       \<lparr>waitResponses = [ER_OK], executeResponses = [ER_OK],
        executed = [(MethodCallRunnableAuth 7 scenario_message ''net'', ER_THREADPOOL_EXHAUSTED)]\<rparr>)"
    using submit_loop_outcome [where n = 1 and ws = "[ER_OK]" and es = "[ER_OK]"
        and w = ER_THREADPOOL_STOPPING
        and message = scenario_message and entry = 7 and permStr = "''net''"
        and p = "\<lparr>waitResponses = [ER_OK, ER_THREADPOOL_STOPPING, ER_OK],
          executeResponses = [ER_THREADPOOL_EXHAUSTED, ER_OK],
          executed = []\<rparr>"] ne
    by (simp add: r1)
  from first second show ?thesis
    by simp
qed

section \<open>Signal delivery to several subscribers\<close>

lemma signal_calls_snoc:
  "signal_calls message permStr status (callList @ [callit]) p =
     (case signal_calls message permStr status callList p of
        None \<Rightarrow> None
      | Some (status', p') \<Rightarrow> submit_loop (NewSignalCallRunnableAuth callit message permStr) p')"
  by (induction callList arbitrary: status p) (auto split: option.splits)

text \<open>
  A script in which every wait succeeds and \<^verbatim>\<open>Execute\<close> answers each task once, with
  any status but exhaustion.
\<close>

lemma signal_calls_one_turn_each:
  "length sts = length callList \<Longrightarrow> ER_THREADPOOL_EXHAUSTED \<notin> set sts \<Longrightarrow>
   waitResponses p = replicate (length callList) ER_OK @ ws \<Longrightarrow>
   executeResponses p = sts @ es \<Longrightarrow>
   signal_calls message permStr status callList p =
     Some (last (status # sts),
           p\<lparr>waitResponses := ws, executeResponses := es,
             executed := executed p @
               zip (map (\<lambda>callit. NewSignalCallRunnableAuth callit message permStr) callList) sts\<rparr>)"
proof (induction sts callList arbitrary: status p rule: list_induct2)
  case Nil
  then have "p\<lparr>waitResponses := ws, executeResponses := es, executed := executed p\<rparr> = p"
    by simp
  then show ?case
    by simp
next
  case (Cons st sts callit callList)
  let ?r = "NewSignalCallRunnableAuth callit message permStr"
  let ?p = "p\<lparr>waitResponses := replicate (length callList) ER_OK @ ws,
               executeResponses := sts @ es, executed := executed p @ [(?r, st)]\<rparr>"
  from Cons.prems have "submit_loop ?r p = Some (st, ?p)"
    by (intro submit_loop_executed) simp_all
  moreover from Cons.prems
  have "signal_calls message permStr st callList ?p =
     Some (last (st # sts),
           ?p\<lparr>waitResponses := ws, executeResponses := es,
              executed := executed ?p @
                zip (map (\<lambda>callit. NewSignalCallRunnableAuth callit message permStr) callList) sts\<rparr>)"
    by (intro Cons.IH) simp_all
  ultimately show ?case
    by simp
qed

text \<open>
  C8 as stated fails in its last part: with two subscribers, when \<^verbatim>\<open>Execute\<close> rejects
  the task of the first with \<^verbatim>\<open>ER_FAIL\<close> and accepts the task of the second, the
  function returns \<^verbatim>\<open>ER_OK\<close>.
\<close>

theorem signal_failure_overwritten_counterexample:
  "PeerAuthAndHandleSignalCall scenario_message [subscriber_1, subscriber_2]
     \<lparr>waitResponses = [ER_OK, ER_OK], executeResponses = [ER_FAIL, ER_OK], executed = []\<rparr> ''net''
   = Some (ER_OK,
       \<lparr>waitResponses = [], executeResponses = [],
        executed = [(NewSignalCallRunnableAuth subscriber_1 scenario_message ''net'', ER_FAIL),
                    (NewSignalCallRunnableAuth subscriber_2 scenario_message ''net'', ER_OK)]\<rparr>)
   \<and> ER_FAIL \<noteq> ER_OK"
  by (simp add: PeerAuthAndHandleSignalCall_def submit_loop_executed
      ER_FAIL_def ER_OK_def ER_THREADPOOL_EXHAUSTED_def)

text \<open>
  C8, amended. Each subscriber gets a task of its own, and the tasks go through the
  submit loop one after the other in the order of the list, whatever the earlier loops
  returned: the call for a list with one more subscriber at the end is the call for the
  list, followed by the submit loop for the task of that subscriber, and its result is
  the result of that last loop. The status returned is the one of the last subscriber's
  loop, \<^verbatim>\<open>ER_OK\<close> for an empty list. When every wait succeeds and \<^verbatim>\<open>Execute\<close> answers
  each task once with a status other than exhaustion, every task is handed to
  \<^verbatim>\<open>Execute\<close>, failures of earlier ones included, and the last of these statuses is
  returned.
\<close>

theorem signal_calls_outcome:
  "PeerAuthAndHandleSignalCall message [] p permStr = Some (ER_OK, p)
   \<and> PeerAuthAndHandleSignalCall message (callList @ [callit]) p permStr =
       (case PeerAuthAndHandleSignalCall message callList p permStr of
          None \<Rightarrow> None
        | Some (status, p') \<Rightarrow>
            submit_loop (NewSignalCallRunnableAuth callit message permStr) p')
   \<and> (length sts = length callList \<and> ER_THREADPOOL_EXHAUSTED \<notin> set sts \<and>
       waitResponses p = replicate (length callList) ER_OK @ ws \<and>
       executeResponses p = sts @ es \<longrightarrow>
       PeerAuthAndHandleSignalCall message callList p permStr =
         Some (last (ER_OK # sts),
               p\<lparr>waitResponses := ws, executeResponses := es,
                 executed := executed p @
                   zip (map (\<lambda>callit. NewSignalCallRunnableAuth callit message permStr) callList)
                     sts\<rparr>))"
proof (intro conjI impI)
  show "PeerAuthAndHandleSignalCall message [] p permStr = Some (ER_OK, p)"
    by (simp add: PeerAuthAndHandleSignalCall_def)
next
  show "PeerAuthAndHandleSignalCall message (callList @ [callit]) p permStr =
       (case PeerAuthAndHandleSignalCall message callList p permStr of
          None \<Rightarrow> None
        | Some (status, p') \<Rightarrow>
            submit_loop (NewSignalCallRunnableAuth callit message permStr) p')"
    unfolding PeerAuthAndHandleSignalCall_def by (rule signal_calls_snoc)
next
  assume "length sts = length callList \<and> ER_THREADPOOL_EXHAUSTED \<notin> set sts \<and>
       waitResponses p = replicate (length callList) ER_OK @ ws \<and>
       executeResponses p = sts @ es"
  then show "PeerAuthAndHandleSignalCall message callList p permStr =
         Some (last (ER_OK # sts),
               p\<lparr>waitResponses := ws, executeResponses := es,
                 executed := executed p @
                   zip (map (\<lambda>callit. NewSignalCallRunnableAuth callit message permStr) callList)
                     sts\<rparr>)"
    unfolding PeerAuthAndHandleSignalCall_def by (intro signal_calls_one_turn_each) simp_all
qed

theorem signal_calls_outcome_witness:
  "PeerAuthAndHandleSignalCall scenario_message [subscriber_1, subscriber_2]
     \<lparr>waitResponses = [ER_OK, ER_OK], executeResponses = [ER_OK, ER_FAIL], executed = []\<rparr> ''net''
   = Some (ER_FAIL,
       \<lparr>waitResponses = [], executeResponses = [],
        executed = [(NewSignalCallRunnableAuth subscriber_1 scenario_message ''net'', ER_OK),
                    (NewSignalCallRunnableAuth subscriber_2 scenario_message ''net'', ER_FAIL)]\<rparr>)"
proof -
  have ne: "ER_THREADPOOL_EXHAUSTED \<noteq> ER_OK" "ER_THREADPOOL_EXHAUSTED \<noteq> ER_FAIL"
    by (simp_all add: ER_OK_def ER_FAIL_def ER_THREADPOOL_EXHAUSTED_def)
  have r2: "replicate 2 x = [x, x]" for x :: "'a"
    by (simp add: numeral_2_eq_2)
  show ?thesis
    using signal_calls_outcome [where callList = "[subscriber_1, subscriber_2]"
        and sts = "[ER_OK, ER_FAIL]" and ws = "[]" and es = "[]"
        and message = scenario_message and permStr = "''net''"
        and p = "\<lparr>waitResponses = [ER_OK, ER_OK], executeResponses = [ER_OK, ER_FAIL],
                  executed = []\<rparr>"] ne
    by (simp add: r2)
qed

section \<open>The blocks of the status enumeration\<close>

text \<open>
  C9 as stated fails for the generic block: its last enumerator, \<^verbatim>\<open>ER_WARNING\<close>, has the
  value 0x1D, above 0x1C.
\<close>

theorem generic_block_counterexample:
  "(''ER_WARNING'', 0x1D) \<in> set generic_block \<and> \<not> (0x1D :: nat) \<le> 0x1C"
  unfolding generic_block_def QStatus_enum_def by simp

text \<open>
  C9, amended. The success test is the comparison with zero, the first enumerator is
  \<^verbatim>\<open>ER_OK\<close> with the value zero and no other enumerator has that value. The generic
  block has the thirty values from 0x0 to 0x1D. The enumerators after it start with
  \<^verbatim>\<open>ER_COMMON_ERRORS\<close> at 0x1000 and none of them is below 0x1000; the bus block
  starts with \<^verbatim>\<open>ER_BUS_ERRORS\<close> at 0x9000 and none of its codes is below 0x9000.
\<close>

theorem status_blocks:
  "is_success status = (status = 0)
   \<and> hd QStatus_enum = (''ER_OK'', ER_OK)
   \<and> list_all (\<lambda>e. \<not> is_success (snd e)) (tl QStatus_enum)
   \<and> map snd generic_block = [0x0 ..< 0x1E]
   \<and> hd after_generic_block = (''ER_COMMON_ERRORS'', 0x1000)
   \<and> list_all (\<lambda>e. 0x1000 \<le> snd e) after_generic_block
   \<and> hd bus_block = (''ER_BUS_ERRORS'', 0x9000)
   \<and> list_all (\<lambda>e. 0x9000 \<le> snd e) bus_block"
proof (intro conjI)
  show "is_success status = (status = 0)"
    by (simp add: is_success_def ER_OK_def)
  show "hd QStatus_enum = (''ER_OK'', ER_OK)"
    unfolding QStatus_enum_def by (simp add: ER_OK_def)
  show "list_all (\<lambda>e. \<not> is_success (snd e)) (tl QStatus_enum)"
    unfolding QStatus_enum_def is_success_def ER_OK_def by simp
  show "map snd generic_block = [0x0 ..< 0x1E]"
    unfolding generic_block_def QStatus_enum_def by (simp add: upt_conv_Cons)
  show "hd after_generic_block = (''ER_COMMON_ERRORS'', 0x1000)"
    unfolding after_generic_block_def QStatus_enum_def by simp
  show "list_all (\<lambda>e. 0x1000 \<le> snd e) after_generic_block"
    unfolding after_generic_block_def QStatus_enum_def by simp
  show "hd bus_block = (''ER_BUS_ERRORS'', 0x9000)"
    unfolding bus_block_def QStatus_enum_def by simp
  show "list_all (\<lambda>e. 0x9000 \<le> snd e) bus_block"
    unfolding bus_block_def QStatus_enum_def by simp
qed

end
